theory Spec2Isabelle
  imports Complex_Main "HOL-Library.Sublist" "HOL-Library.Multiset"
begin

section \<open>Strings\<close>

text \<open>
  A JavaScript string is modelled as a list of characters. \<open>toLowerCase\<close> maps each
  of the capitals \<open>A\<close>..\<open>Z\<close> to its small letter and leaves every other character
  alone (capitals outside ASCII, which JavaScript lowers too, are not modelled); all
  tokens the storage layer compares against are made of the letters \<open>a\<close>..\<open>z\<close>.
  \<open>includes_str s sub\<close> is \<open>s.includes(sub)\<close>: \<open>sub\<close> occurs in \<open>s\<close> as a
  contiguous block.
\<close>

definition toLowerChar :: "char \<Rightarrow> char" where
  "toLowerChar c =
     (case map_of (zip ''ABCDEFGHIJKLMNOPQRSTUVWXYZ'' ''abcdefghijklmnopqrstuvwxyz'') c of
        None \<Rightarrow> c
      | Some d \<Rightarrow> d)"

definition toLowerCase :: "string \<Rightarrow> string" where
  "toLowerCase s = map toLowerChar s"

fun includes_str :: "string \<Rightarrow> string \<Rightarrow> bool" where
  "includes_str [] sub = (sub = [])"
| "includes_str (c # cs) sub = (prefix sub (c # cs) \<or> includes_str cs sub)"

section \<open>Data model (shared/schema.ts)\<close>

record OfficeAddress =
  street :: string
  city :: string
  state :: string
  zipCode :: string
  latitude :: "real option"
  longitude :: "real option"

record Education =
  degree :: string
  institution :: string
  graduationYear :: string

record Certification =
  cert_name :: string
  organization :: string
  cert_year :: "string option"

text \<open>
  \<open>InsertProvider\<close> is a provider without its id; \<open>Provider\<close> extends it by the id
  (field \<open>provider_id\<close>, the source's \<open>id\<close>). A nullable column is an \<open>option\<close>.
  JavaScript numbers are modelled by \<open>real\<close> (rating, distance, the results of
  comparators, page numbers and page sizes, which need not be whole) and by \<open>int\<close>
  where the code only ever holds a whole number (counts, ids, lengths); the rounding of
  floating-point arithmetic is not modelled, and neither is the loss of precision of a
  counter beyond \<open>2^53\<close>.
\<close>

record InsertProvider =
  name :: string
  title :: string
  specialty :: string
  profileImage :: "string option"
  facilityName :: string
  distance :: "real option"
  rating :: real
  reviewCount :: int
  nextAvailable :: "string option"
  insurances :: "string list option"
  isInNetwork :: "bool option"
  hasVirtualVisits :: "bool option"
  languages :: "string list option"
  about :: string
  education :: "Education list"
  certifications :: "Certification list"
  officeAddress :: "OfficeAddress option"
  officePhone :: string
  officeHours :: "(string \<times> string) list"
  acceptingNewPatients :: "bool option"
  isSpanishSpeaking :: "bool option"

record Provider = InsertProvider +
  provider_id :: int

text \<open>
  The filter request (\<open>ProviderFilter\<close>), as the validation schema types it: the
  schema fills in \<open>page\<close>, \<open>limit\<close> and \<open>sort\<close>, so they are always there (the
  defaults that \<open>searchProviders\<close> gives them again when it takes the filter apart
  never apply), and the other fields may be missing.
\<close>

record Availability =
  today :: bool
  thisWeek :: bool
  weekends :: bool

record Additional =
  add_acceptingNewPatients :: bool
  add_virtualVisits :: bool
  add_spanishSpeaking :: bool

record ProviderFilter =
  f_searchQuery :: "string option"
  f_specialty :: "string option"
  f_zipCode :: "string option"
  f_radius :: "string option"
  f_insurance :: "string option"
  f_availability :: "Availability option"
  f_additional :: "Additional option"
  f_page :: real
  f_limit :: real
  f_sort :: string

record Options =
  o_page :: real
  o_limit :: real
  o_sort :: "string option"

record PageResult =
  r_providers :: "Provider list"
  r_total :: int
  r_location :: "string option"

record InsertSpecialty =
  sp_name :: string

record Specialty = InsertSpecialty +
  sp_id :: int

record InsertInsurancePlan =
  plan_name :: string

record InsurancePlan = InsertInsurancePlan +
  plan_id :: int

section \<open>The store (server/storage.ts, class MemStorage)\<close>

text \<open>
  A JavaScript \<open>Map\<close> keeps its entries in insertion order: it is a list of
  key/value pairs. \<open>map_set\<close> overwrites the value of a key that is present, in
  place, and appends a new key at the end. A \<open>Set\<close> of strings is a list that
  \<open>set_add\<close> extends only by a string it does not hold yet.
\<close>

fun map_set :: "('k \<times> 'v) list \<Rightarrow> 'k \<Rightarrow> 'v \<Rightarrow> ('k \<times> 'v) list" where
  "map_set [] k v = [(k, v)]"
| "map_set ((k', v') # m) k v =
     (if k' = k then (k, v) # m else (k', v') # map_set m k v)"

definition map_get :: "('k \<times> 'v) list \<Rightarrow> 'k \<Rightarrow> 'v option" where
  "map_get m k = map_of m k"

definition map_values :: "('k \<times> 'v) list \<Rightarrow> 'v list" where
  "map_values m = map snd m"

definition set_add :: "string list \<Rightarrow> string \<Rightarrow> string list" where
  "set_add xs x = (if x \<in> set xs then xs else xs @ [x])"

record MemStorage =
  providers :: "(int \<times> Provider) list"
  specialties :: "string list"
  insurancePlans :: "string list"
  currentProviderId :: int
  currentSpecialtyId :: int
  currentInsurancePlanId :: int

subsection \<open>Sorting\<close>

text \<open>
  \<open>Array.prototype.sort\<close> with a comparator. The language fixes the result for a
  consistent comparator (one that is a total preorder on the elements): the elements in
  ascending order of the comparator, with elements that compare equal in their input
  order (the sort is stable). Stable insertion computes that result: an element goes
  before the first element of the sorted rest that the comparator does not put strictly
  before it. The four comparators of \<open>sortProviders\<close> are consistent.
\<close>

fun insert_cmp :: "('a \<Rightarrow> 'a \<Rightarrow> real) \<Rightarrow> 'a \<Rightarrow> 'a list \<Rightarrow> 'a list" where
  "insert_cmp cmp x [] = [x]"
| "insert_cmp cmp x (y # ys) =
     (if cmp x y \<le> 0 then x # y # ys else y # insert_cmp cmp x ys)"

definition array_sort :: "('a \<Rightarrow> 'a \<Rightarrow> real) \<Rightarrow> 'a list \<Rightarrow> 'a list" where
  "array_sort cmp xs = foldr (insert_cmp cmp) xs []"

text \<open>\<open>a.distance || 0\<close>: a missing distance counts as 0.\<close>

definition or_zero :: "real option \<Rightarrow> real" where
  "or_zero d = (case d of None \<Rightarrow> 0 | Some x \<Rightarrow> x)"

text \<open>
  \<open>text_has t tok\<close> is \<open>t?.toLowerCase().includes(tok)\<close> read as a condition: a
  missing text has no token.
\<close>

definition text_has :: "string option \<Rightarrow> string \<Rightarrow> bool" where
  "text_has t tok = (case t of None \<Rightarrow> False | Some s \<Rightarrow> includes_str (toLowerCase s) tok)"

definition cmp_distance :: "Provider \<Rightarrow> Provider \<Rightarrow> real" where
  "cmp_distance a b = or_zero (distance a) - or_zero (distance b)"

definition cmp_rating :: "Provider \<Rightarrow> Provider \<Rightarrow> real" where
  "cmp_rating a b = rating b - rating a"

definition cmp_availability :: "Provider \<Rightarrow> Provider \<Rightarrow> real" where
  "cmp_availability a b =
     (let aToday = (if text_has (nextAvailable a) ''today'' then 1 else 0 :: real);
          bToday = (if text_has (nextAvailable b) ''today'' then 1 else 0 :: real)
      in if aToday \<noteq> bToday then bToday - aToday
         else
           (let aTomorrow = (if text_has (nextAvailable a) ''tomorrow'' then 1 else 0 :: real);
                bTomorrow = (if text_has (nextAvailable b) ''tomorrow'' then 1 else 0 :: real)
            in bTomorrow - aTomorrow))"

text \<open>
  The relevance score of a provider: \<open>rating * Math.log(reviewCount + 1)\<close>. The real
  logarithm \<open>ln\<close> stands for \<open>Math.log\<close> on positive arguments only, that is for
  review counts \<open>\<ge> 0\<close> (\<open>Math.log\<close> is \<open>-Infinity\<close> at 0 and \<open>NaN\<close> below).
\<close>

definition score :: "Provider \<Rightarrow> real" where
  "score p = rating p * ln (real_of_int (reviewCount p + 1))"

definition cmp_relevance :: "Provider \<Rightarrow> Provider \<Rightarrow> real" where
  "cmp_relevance a b = score b - score a"

definition sortProviders :: "Provider list \<Rightarrow> string \<Rightarrow> Provider list" where
  "sortProviders ps sortKey =
     (let sortedProviders = ps
      in if sortKey = ''distance'' then array_sort cmp_distance sortedProviders
         else if sortKey = ''rating'' then array_sort cmp_rating sortedProviders
         else if sortKey = ''availability'' then array_sort cmp_availability sortedProviders
         else array_sort cmp_relevance sortedProviders)"

text \<open>
  \<open>Array.prototype.slice(start, fin)\<close>. Its arguments are numbers: each is first cut
  to a whole number by dropping its fraction (\<open>ToIntegerOrInfinity\<close>, here
  \<open>toInteger\<close>: 2.5 becomes 2, and -2.5 becomes -2). A negative index then counts from
  the end, both indices are clamped to the array, and an empty range gives the empty
  array.
\<close>

definition toInteger :: "real \<Rightarrow> int" where
  "toInteger x = (if 0 \<le> x then \<lfloor>x\<rfloor> else \<lceil>x\<rceil>)"

definition slice :: "'a list \<Rightarrow> real \<Rightarrow> real \<Rightarrow> 'a list" where
  "slice xs start fin =
     (let len = int (length xs);
          relativeStart = toInteger start;
          k = (if relativeStart < 0 then max (len + relativeStart) 0 else min relativeStart len);
          relativeEnd = toInteger fin;
          final = (if relativeEnd < 0 then max (len + relativeEnd) 0 else min relativeEnd len)
      in take (nat (final - k)) (drop (nat k) xs))"

subsection \<open>Provider methods\<close>

definition getProviders :: "MemStorage \<Rightarrow> Options option \<Rightarrow> PageResult" where
  "getProviders s options =
     (let opts = (case options of
                    None \<Rightarrow> \<lparr>o_page = 1, o_limit = 10, o_sort = None\<rparr>
                  | Some x \<Rightarrow> x);
          page = o_page opts;
          limit = o_limit opts;
          sortKey = (case o_sort opts of None \<Rightarrow> ''relevance'' | Some x \<Rightarrow> x);
          allProviders = map_values (providers s);
          sortedProviders = sortProviders allProviders sortKey;
          start = (page - 1) * limit;
          fin = start + limit;
          paginatedProviders = slice sortedProviders start fin
      in \<lparr>r_providers = paginatedProviders,
          r_total = int (length allProviders),
          r_location = Some ''New York, NY''\<rparr>)"

definition getProvider :: "MemStorage \<Rightarrow> int \<Rightarrow> Provider option" where
  "getProvider s i = map_get (providers s) i"

text \<open>
  \<open>createProvider\<close> reads the counter, increments it, builds \<open>{...provider, id}\<close> and
  stores it under the id. It returns the new record and the updated store.
\<close>

definition createProvider :: "InsertProvider \<Rightarrow> MemStorage \<Rightarrow> Provider \<times> MemStorage" where
  "createProvider provider s =
     (let i = currentProviderId s;
          s1 = s\<lparr>currentProviderId := currentProviderId s + 1\<rparr>;
          newProvider = InsertProvider.extend provider (Provider.fields i);
          s2 = s1\<lparr>providers := map_set (providers s1) i newProvider\<rparr>
      in (newProvider, s2))"

subsection \<open>Search\<close>

text \<open>
  \<open>guarded t P\<close> is \<open>t && P(t)\<close> read as a condition: a missing or empty text is
  falsy, so the right operand is not looked at.
\<close>

definition guarded :: "string option \<Rightarrow> (string \<Rightarrow> bool) \<Rightarrow> bool" where
  "guarded t P = (case t of None \<Rightarrow> False | Some x \<Rightarrow> x \<noteq> [] \<and> P x)"

definition formatAddress :: "OfficeAddress \<Rightarrow> string" where
  "formatAddress a = street a @ '', '' @ city a @ '', '' @ state a @ '' '' @ zipCode a"

definition matchesQuery :: "string \<Rightarrow> Provider \<Rightarrow> bool" where
  "matchesQuery query p =
     (includes_str (toLowerCase (name p)) query \<or>
      includes_str (toLowerCase (specialty p)) query \<or>
      (case officeAddress p of
         None \<Rightarrow> False
       | Some a \<Rightarrow> includes_str (toLowerCase (formatAddress a)) query) \<or>
      includes_str (toLowerCase (about p)) query \<or>
      (case insurances p of
         None \<Rightarrow> False
       | Some ins \<Rightarrow> list_ex (\<lambda>i. includes_str (toLowerCase i) query) ins))"

definition matchesSpecialty :: "string \<Rightarrow> Provider \<Rightarrow> bool" where
  "matchesSpecialty sp p = (toLowerCase (specialty p) = toLowerCase sp)"

definition matchesInsurance :: "string \<Rightarrow> Provider \<Rightarrow> bool" where
  "matchesInsurance insurance p =
     (case insurances p of
        None \<Rightarrow> False
      | Some ins \<Rightarrow> list_ex (\<lambda>i. toLowerCase i = toLowerCase insurance) ins)"

definition availableToday :: "Provider \<Rightarrow> bool" where
  "availableToday p =
     guarded (nextAvailable p) (\<lambda>t. includes_str (toLowerCase t) ''today'')"

definition availableThisWeek :: "Provider \<Rightarrow> bool" where
  "availableThisWeek p =
     guarded (nextAvailable p) (\<lambda>t.
       includes_str (toLowerCase t) ''today'' \<or>
       includes_str (toLowerCase t) ''tomorrow'' \<or>
       includes_str (toLowerCase t) ''monday'' \<or>
       includes_str (toLowerCase t) ''tuesday'' \<or>
       includes_str (toLowerCase t) ''wednesday'' \<or>
       includes_str (toLowerCase t) ''thursday'' \<or>
       includes_str (toLowerCase t) ''friday'')"

definition availableWeekends :: "Provider \<Rightarrow> bool" where
  "availableWeekends p =
     guarded (nextAvailable p) (\<lambda>t.
       includes_str (toLowerCase t) ''saturday'' \<or>
       includes_str (toLowerCase t) ''sunday'')"

definition speaksSpanish :: "Provider \<Rightarrow> bool" where
  "speaksSpanish p =
     (case languages p of
        None \<Rightarrow> False
      | Some ls \<Rightarrow> list_ex (\<lambda>l. toLowerCase l = ''spanish'') ls)"

text \<open>
  The stages of \<open>searchProviders\<close>, in the order of the source. Each one replaces the
  running list \<open>filteredProviders\<close> by a filtered copy when its filter field asks for
  it (a missing or empty string asks for nothing), and leaves it alone otherwise.
\<close>

definition stage_query :: "ProviderFilter \<Rightarrow> Provider list \<Rightarrow> Provider list" where
  "stage_query flt ps =
     (case f_searchQuery flt of
        None \<Rightarrow> ps
      | Some q \<Rightarrow> if q \<noteq> [] then filter (matchesQuery (toLowerCase q)) ps else ps)"

definition stage_specialty :: "ProviderFilter \<Rightarrow> Provider list \<Rightarrow> Provider list" where
  "stage_specialty flt ps =
     (case f_specialty flt of
        None \<Rightarrow> ps
      | Some sp \<Rightarrow> if sp \<noteq> [] then filter (matchesSpecialty sp) ps else ps)"

definition stage_insurance :: "ProviderFilter \<Rightarrow> Provider list \<Rightarrow> Provider list" where
  "stage_insurance flt ps =
     (case f_insurance flt of
        None \<Rightarrow> ps
      | Some insurance \<Rightarrow>
          if insurance \<noteq> [] then filter (matchesInsurance insurance) ps else ps)"

definition stage_availability :: "ProviderFilter \<Rightarrow> Provider list \<Rightarrow> Provider list" where
  "stage_availability flt ps =
     (case f_availability flt of
        None \<Rightarrow> ps
      | Some a \<Rightarrow>
          (let ps1 = (if today a then filter availableToday ps else ps);
               ps2 = (if thisWeek a then filter availableThisWeek ps1 else ps1);
               ps3 = (if weekends a then filter availableWeekends ps2 else ps2)
           in ps3))"

definition stage_additional :: "ProviderFilter \<Rightarrow> Provider list \<Rightarrow> Provider list" where
  "stage_additional flt ps =
     (case f_additional flt of
        None \<Rightarrow> ps
      | Some ad \<Rightarrow>
          (let ps1 = (if add_acceptingNewPatients ad
                      then filter (\<lambda>p. acceptingNewPatients p = Some True) ps else ps);
               ps2 = (if add_virtualVisits ad
                      then filter (\<lambda>p. hasVirtualVisits p = Some True) ps1 else ps1);
               ps3 = (if add_spanishSpeaking ad then filter speaksSpanish ps2 else ps2)
           in ps3))"

definition filteredProviders :: "MemStorage \<Rightarrow> ProviderFilter \<Rightarrow> Provider list" where
  "filteredProviders s flt =
     stage_additional flt
       (stage_availability flt
         (stage_insurance flt
           (stage_specialty flt
             (stage_query flt (map_values (providers s))))))"

definition searchProviders :: "MemStorage \<Rightarrow> ProviderFilter \<Rightarrow> PageResult" where
  "searchProviders s flt =
     (let page = f_page flt;
          limit = f_limit flt;
          sortKey = f_sort flt;
          filtered = filteredProviders s flt;
          sortedProviders = sortProviders filtered sortKey;
          start = (page - 1) * limit;
          fin = start + limit;
          paginatedProviders = slice sortedProviders start fin;
          location = (case f_zipCode flt of
                        None \<Rightarrow> ''New York, NY''
                      | Some z \<Rightarrow> if z \<noteq> [] then ''Area near '' @ z else ''New York, NY'')
      in \<lparr>r_providers = paginatedProviders,
          r_total = int (length filtered),
          r_location = Some location\<rparr>)"

subsection \<open>Specialty and insurance plan methods\<close>

definition getSpecialties :: "MemStorage \<Rightarrow> string list" where
  "getSpecialties s = specialties s"

definition createSpecialty :: "InsertSpecialty \<Rightarrow> MemStorage \<Rightarrow> Specialty \<times> MemStorage" where
  "createSpecialty sp s =
     (let i = currentSpecialtyId s;
          s1 = s\<lparr>currentSpecialtyId := currentSpecialtyId s + 1\<rparr>;
          s2 = s1\<lparr>specialties := set_add (specialties s1) (sp_name sp)\<rparr>
      in (InsertSpecialty.extend sp (Specialty.fields i), s2))"

definition getInsurancePlans :: "MemStorage \<Rightarrow> string list" where
  "getInsurancePlans s = insurancePlans s"

definition createInsurancePlan ::
  "InsertInsurancePlan \<Rightarrow> MemStorage \<Rightarrow> InsurancePlan \<times> MemStorage" where
  "createInsurancePlan plan s =
     (let i = currentInsurancePlanId s;
          s1 = s\<lparr>currentInsurancePlanId := currentInsurancePlanId s + 1\<rparr>;
          s2 = s1\<lparr>insurancePlans := set_add (insurancePlans s1) (plan_name plan)\<rparr>
      in (InsertInsurancePlan.extend plan (InsurancePlan.fields i), s2))"

subsection \<open>Construction\<close>

text \<open>
  The constructor sets the three counters to 1, fills the two name sets and then calls
  \<open>seedProviders\<close>, which runs \<open>createProvider\<close> over a fixed list of example
  records. The list is a parameter here: everything below holds for every seed list.
\<close>

definition initialStorage :: MemStorage where
  "initialStorage =
     \<lparr>providers = [],
      specialties =
        [''Primary Care'', ''Cardiology'', ''Dermatology'', ''Orthopedics'',
         ''Neurology'', ''Psychiatry'', ''Pediatrics'', ''Gynecology'',
         ''Ophthalmology'', ''Dentistry'', ''Physical Therapy'', ''Oncology'',
         ''Endocrinology'', ''Pulmonology'', ''Rheumatology'', ''Gastroenterology''],
      insurancePlans =
        [''Aetna'', ''Blue Cross Blue Shield'', ''Cigna'', ''Humana'',
         ''Medicaid'', ''Medicare'', ''UnitedHealthcare'', ''Oscar'',
         ''Kaiser Permanente'', ''Anthem'', ''Delta Dental'', ''Cigna Dental''],
      currentProviderId = 1,
      currentSpecialtyId = 1,
      currentInsurancePlanId = 1\<rparr>"

fun seedProviders :: "InsertProvider list \<Rightarrow> MemStorage \<Rightarrow> MemStorage" where
  "seedProviders [] s = s"
| "seedProviders (d # ds) s = seedProviders ds (snd (createProvider d s))"

definition newMemStorage :: "InsertProvider list \<Rightarrow> MemStorage" where
  "newMemStorage seedData = seedProviders seedData initialStorage"

subsection \<open>The interface as a whole\<close>

text \<open>
  \<open>IStorage\<close> has eight methods and \<open>MemStorage\<close> no other public one. A
  \<open>request\<close> is a call of one of them; \<open>call\<close> gives its answer and the store after
  it; \<open>run\<close> performs a sequence of calls.
\<close>

datatype request =
    GetProviders "Options option"
  | GetProvider int
  | CreateProvider InsertProvider
  | SearchProviders ProviderFilter
  | GetSpecialties
  | CreateSpecialty InsertSpecialty
  | GetInsurancePlans
  | CreateInsurancePlan InsertInsurancePlan

datatype response =
    Page PageResult
  | Found "Provider option"
  | CreatedProvider Provider
  | Names "string list"
  | CreatedSpecialty Specialty
  | CreatedInsurancePlan InsurancePlan

fun call :: "request \<Rightarrow> MemStorage \<Rightarrow> response \<times> MemStorage" where
  "call (GetProviders options) s = (Page (getProviders s options), s)"
| "call (GetProvider i) s = (Found (getProvider s i), s)"
| "call (CreateProvider d) s = (case createProvider d s of (p, s') \<Rightarrow> (CreatedProvider p, s'))"
| "call (SearchProviders flt) s = (Page (searchProviders s flt), s)"
| "call GetSpecialties s = (Names (getSpecialties s), s)"
| "call (CreateSpecialty sp) s =
     (case createSpecialty sp s of (r, s') \<Rightarrow> (CreatedSpecialty r, s'))"
| "call GetInsurancePlans s = (Names (getInsurancePlans s), s)"
| "call (CreateInsurancePlan plan) s =
     (case createInsurancePlan plan s of (r, s') \<Rightarrow> (CreatedInsurancePlan r, s'))"

fun run :: "request list \<Rightarrow> MemStorage \<Rightarrow> MemStorage" where
  "run [] s = s"
| "run (r # rs) s = run rs (snd (call r s))"

subsection \<open>Records of the seed list\<close>

text \<open>
  The first three records of \<open>seedData\<close> in \<open>seedProviders\<close>, used below as
  concrete inputs.
\<close>

definition sarahJohnson :: InsertProvider where
  "sarahJohnson =
     \<lparr>name = ''Dr. Sarah Johnson'',
      title = ''MD'',
      specialty = ''Cardiology'',
      profileImage = Some '''',
      facilityName = ''Midtown Medical Center'',
      distance = Some 2.3,
      rating = 4.5,
      reviewCount = 128,
      nextAvailable = Some ''Today, 2:30 PM'',
      insurances = Some [''Aetna'',
                           ''Blue Cross Blue Shield'',
                           ''Cigna'',
                           ''Medicare''],
      isInNetwork = Some True,
      hasVirtualVisits = Some False,
      languages = Some [''English'',
                          ''Spanish''],
      about =
        ''Dr. Sarah Johnson is a board-certified cardiologist with over 10 years of '' @
        ''experience treating patients with various heart conditions. She specializes in '' @
        ''preventive cardiology, heart failure management, and women's heart health. Dr. '' @
        ''Johnson takes a patient-centered approach, focusing on lifestyle modifications '' @
        ''alongside medical interventions.'',
      education =
        [\<lparr>degree = ''MD, Johns Hopkins School of Medicine'',
          institution = ''Johns Hopkins University'',
          graduationYear = ''Graduated 2008''\<rparr>,
         \<lparr>degree = ''Cardiology Fellowship, Mount Sinai Hospital'',
          institution = ''Mount Sinai Hospital'',
          graduationYear = ''Completed 2013''\<rparr>],
      certifications =
        [\<lparr>cert_name = ''Board Certified in Cardiovascular Disease'',
          organization = ''American Board of Internal Medicine'',
          cert_year = None\<rparr>],
      officeAddress =
        Some \<lparr>street = ''123 Park Avenue, Suite 456'', city = ''New York'', state = ''NY'',
              zipCode = ''10022'', latitude = Some 40.758, longitude = Some (- 73.9855)\<rparr>,
      officePhone = ''(212) 555-7890'',
      officeHours =
        [(''Monday'', ''8:00 AM - 5:00 PM''),
         (''Tuesday'', ''8:00 AM - 5:00 PM''),
         (''Wednesday'', ''10:00 AM - 7:00 PM''),
         (''Thursday'', ''8:00 AM - 5:00 PM''),
         (''Friday'', ''8:00 AM - 3:00 PM''),
         (''Saturday'', ''9:00 AM - 1:00 PM''),
         (''Sunday'', ''Closed'')],
      acceptingNewPatients = Some True,
      isSpanishSpeaking = Some True\<rparr>"

definition michaelChen :: InsertProvider where
  "michaelChen =
     \<lparr>name = ''Dr. Michael Chen'',
      title = ''MD'',
      specialty = ''Primary Care'',
      profileImage = Some '''',
      facilityName = ''Downtown Medical Group'',
      distance = Some 1.8,
      rating = 4.0,
      reviewCount = 97,
      nextAvailable = Some ''Tomorrow, 9:15 AM'',
      insurances = Some [''UnitedHealthcare'',
                           ''Blue Cross Blue Shield'',
                           ''Humana'',
                           ''Medicaid''],
      isInNetwork = Some True,
      hasVirtualVisits = Some True,
      languages = Some [''English'',
                          ''Mandarin''],
      about =
        ''Dr. Michael Chen is a primary care physician specializing in preventive '' @
        ''medicine and chronic disease management. With his patient-centered approach, '' @
        ''Dr. Chen is committed to helping his patients achieve their optimal health '' @
        ''through comprehensive care and education.'',
      education =
        [\<lparr>degree = ''MD, University of California, San Francisco'',
          institution = ''UCSF'',
          graduationYear = ''Graduated 2010''\<rparr>,
         \<lparr>degree = ''Residency in Internal Medicine, Stanford Medical Center'',
          institution = ''Stanford'',
          graduationYear = ''Completed 2013''\<rparr>],
      certifications =
        [\<lparr>cert_name = ''Board Certified in Internal Medicine'',
          organization = ''American Board of Internal Medicine'',
          cert_year = None\<rparr>],
      officeAddress =
        Some \<lparr>street = ''456 Broadway, Floor 3'', city = ''New York'', state = ''NY'',
              zipCode = ''10013'', latitude = Some 40.7209, longitude = Some (- 73.9988)\<rparr>,
      officePhone = ''(212) 555-1234'',
      officeHours =
        [(''Monday'', ''9:00 AM - 6:00 PM''),
         (''Tuesday'', ''9:00 AM - 6:00 PM''),
         (''Wednesday'', ''9:00 AM - 6:00 PM''),
         (''Thursday'', ''9:00 AM - 6:00 PM''),
         (''Friday'', ''9:00 AM - 5:00 PM''),
         (''Saturday'', ''Closed''),
         (''Sunday'', ''Closed'')],
      acceptingNewPatients = Some True,
      isSpanishSpeaking = Some False\<rparr>"

definition alexRodriguez :: InsertProvider where
  "alexRodriguez =
     \<lparr>name = ''Dr. Alex Rodriguez'',
      title = ''MD'',
      specialty = ''Dermatology'',
      profileImage = Some '''',
      facilityName = ''East Village Dermatology'',
      distance = Some 3.5,
      rating = 5.0,
      reviewCount = 213,
      nextAvailable = Some ''Friday, 1:00 PM'',
      insurances = Some [''Aetna'',
                           ''Cigna'',
                           ''Oscar'',
                           ''UnitedHealthcare'',
                           ''Medicare''],
      isInNetwork = Some True,
      hasVirtualVisits = Some True,
      languages = Some [''English'',
                          ''Spanish''],
      about =
        ''Dr. Alex Rodriguez is a board-certified dermatologist specializing in medical, '' @
        ''surgical, and cosmetic dermatology. With expertise in treating various skin '' @
        ''conditions including acne, psoriasis, and skin cancer, Dr. Rodriguez is '' @
        ''dedicated to providing personalized care for patients of all ages.'',
      education =
        [\<lparr>degree = ''MD, Columbia University College of Physicians and Surgeons'',
          institution = ''Columbia University'',
          graduationYear = ''Graduated 2009''\<rparr>,
         \<lparr>degree = ''Dermatology Residency, NYU Langone Medical Center'',
          institution = ''NYU'',
          graduationYear = ''Completed 2013''\<rparr>],
      certifications =
        [\<lparr>cert_name = ''Board Certified in Dermatology'',
          organization = ''American Board of Dermatology'',
          cert_year = None\<rparr>,
         \<lparr>cert_name = ''Fellow'',
          organization = ''American Academy of Dermatology'',
          cert_year = None\<rparr>],
      officeAddress =
        Some \<lparr>street = ''789 2nd Avenue, Suite 301'', city = ''New York'', state = ''NY'',
              zipCode = ''10003'', latitude = Some 40.7318, longitude = Some (- 73.982)\<rparr>,
      officePhone = ''(212) 555-4567'',
      officeHours =
        [(''Monday'', ''8:30 AM - 5:00 PM''),
         (''Tuesday'', ''8:30 AM - 5:00 PM''),
         (''Wednesday'', ''8:30 AM - 5:00 PM''),
         (''Thursday'', ''8:30 AM - 5:00 PM''),
         (''Friday'', ''8:30 AM - 3:00 PM''),
         (''Saturday'', ''Closed''),
         (''Sunday'', ''Closed'')],
      acceptingNewPatients = Some True,
      isSpanishSpeaking = Some True\<rparr>"

section \<open>Notions used in the statements\<close>

text \<open>
  \<open>numbered i ds\<close> pairs the records \<open>ds\<close> with the consecutive ids \<open>i\<close>,
  \<open>i + 1\<close>, ... and stores each under its id.
\<close>

fun numbered :: "int \<Rightarrow> InsertProvider list \<Rightarrow> (int \<times> Provider) list" where
  "numbered i [] = []"
| "numbered i (d # ds) = (i, InsertProvider.extend d (Provider.fields i)) # numbered (i + 1) ds"

fun isCreateProvider :: "request \<Rightarrow> bool" where
  "isCreateProvider (CreateProvider d) = True"
| "isCreateProvider r = False"

text \<open>Every id in use lies below the counter: a new id is never one in use.\<close>

definition ids_below :: "MemStorage \<Rightarrow> bool" where
  "ids_below s = list_all (\<lambda>kv. fst kv < currentProviderId s) (providers s)"


text \<open>
  The conditions under which the stages of \<open>searchProviders\<close> keep a provider, read off
  the code and named, one for each stage: a stage whose field is missing, empty or
  switched off keeps every provider.
\<close>

definition wants_query :: "ProviderFilter \<Rightarrow> Provider \<Rightarrow> bool" where
  "wants_query flt p =
     (case f_searchQuery flt of None \<Rightarrow> True | Some q \<Rightarrow> q = [] \<or> matchesQuery (toLowerCase q) p)"

definition wants_specialty :: "ProviderFilter \<Rightarrow> Provider \<Rightarrow> bool" where
  "wants_specialty flt p =
     (case f_specialty flt of None \<Rightarrow> True | Some sp \<Rightarrow> sp = [] \<or> matchesSpecialty sp p)"

definition wants_insurance :: "ProviderFilter \<Rightarrow> Provider \<Rightarrow> bool" where
  "wants_insurance flt p =
     (case f_insurance flt of None \<Rightarrow> True | Some i \<Rightarrow> i = [] \<or> matchesInsurance i p)"

definition wants_availability :: "ProviderFilter \<Rightarrow> Provider \<Rightarrow> bool" where
  "wants_availability flt p =
     (case f_availability flt of
        None \<Rightarrow> True
      | Some a \<Rightarrow> (today a \<longrightarrow> availableToday p)
               \<and> (thisWeek a \<longrightarrow> availableThisWeek p)
               \<and> (weekends a \<longrightarrow> availableWeekends p))"

definition wants_additional :: "ProviderFilter \<Rightarrow> Provider \<Rightarrow> bool" where
  "wants_additional flt p =
     (case f_additional flt of
        None \<Rightarrow> True
      | Some ad \<Rightarrow> (add_acceptingNewPatients ad \<longrightarrow> acceptingNewPatients p = Some True)
                \<and> (add_virtualVisits ad \<longrightarrow> hasVirtualVisits p = Some True)
                \<and> (add_spanishSpeaking ad \<longrightarrow> speaksSpanish p))"

definition satisfies :: "ProviderFilter \<Rightarrow> Provider \<Rightarrow> bool" where
  "satisfies flt p =
     (wants_query flt p \<and> wants_specialty flt p \<and> wants_insurance flt p
      \<and> wants_availability flt p \<and> wants_additional flt p)"

text \<open>
  \<open>contains_ci t tok\<close>: the text \<open>t\<close> is there and, in small letters, has \<open>tok\<close> as a
  contiguous part (\<open>sublist\<close> is the library's notion of a contiguous part).
\<close>

definition contains_ci :: "string option \<Rightarrow> string \<Rightarrow> bool" where
  "contains_ci t tok = (case t of None \<Rightarrow> False | Some x \<Rightarrow> sublist tok (toLowerCase x))"

definition weekday_tokens :: "string list" where
  "weekday_tokens = [''monday'', ''tuesday'', ''wednesday'', ''thursday'', ''friday'']"

text \<open>The availability toggles \<open>a\<close>, read as a condition on a provider.\<close>

definition availability_ok :: "Availability \<Rightarrow> Provider \<Rightarrow> bool" where
  "availability_ok a p =
     ((today a \<longrightarrow> contains_ci (nextAvailable p) ''today'')
      \<and> (thisWeek a \<longrightarrow>
           list_ex (contains_ci (nextAvailable p)) ([''today'', ''tomorrow''] @ weekday_tokens))
      \<and> (weekends a \<longrightarrow>
           list_ex (contains_ci (nextAvailable p)) [''saturday'', ''sunday'']))"

text \<open>Lists of providers used as concrete inputs.\<close>

definition seed3 :: "InsertProvider list" where
  "seed3 = [sarahJohnson, michaelChen, alexRodriguez]"

definition store3 :: MemStorage where
  "store3 = newMemStorage seed3"

definition filterCardio :: ProviderFilter where
  "filterCardio =
     \<lparr>f_searchQuery = None, f_specialty = Some ''CARDIOLOGY'', f_zipCode = None,
      f_radius = None, f_insurance = Some ''medicare'', f_availability = None,
      f_additional = None, f_page = 1, f_limit = 10, f_sort = ''rating''\<rparr>"



definition laterProvider :: InsertProvider where
  "laterProvider = sarahJohnson\<lparr>nextAvailable := Some ''In two weeks''\<rparr>"


text \<open>
  The place of a provider in the availability order: first the providers whose text
  has \<open>today\<close>, among the others as among them first those whose text has
  \<open>tomorrow\<close>.
\<close>

definition availability_rank :: "Provider \<Rightarrow> nat" where
  "availability_rank p =
     (if contains_ci (nextAvailable p) ''today'' then 0 else 2)
     + (if contains_ci (nextAvailable p) ''tomorrow'' then 0 else 1)"

definition todayOrTomorrow :: InsertProvider where
  "todayOrTomorrow = sarahJohnson\<lparr>nextAvailable := Some ''Today or tomorrow''\<rparr>"

definition badlyRated :: "int \<Rightarrow> InsertProvider" where
  "badlyRated n = sarahJohnson\<lparr>rating := - 1, reviewCount := n\<rparr>"

definition unreviewed :: InsertProvider where
  "unreviewed = alexRodriguez\<lparr>reviewCount := 0\<rparr>"

section \<open>Evaluation with null dereferences\<close>

text \<open>
  Reading a property or calling a method of \<open>null\<close> or \<open>undefined\<close> throws a
  \<open>TypeError\<close>; nothing else in the provider methods can throw. The definitions of
  this section follow the same source once more and keep that failure: an \<open>outcome\<close>
  is a returned value or \<open>Thrown\<close>, and \<open>on x f\<close> is a member access on the
  nullable \<open>x\<close>, which throws when \<open>x\<close> is missing. The conditions \<open>truthy\<close> and
  \<open>present\<close> are the truth values of a nullable string and of a nullable object or
  array; \<open>and_also\<close> and \<open>or_else\<close> are \<open>&&\<close> and \<open>||\<close>, which do not look
  at their right operand when the left one decides. An optional chain \<open>x?.m()\<close> is no
  dereference: it yields \<open>undefined\<close> for a missing \<open>x\<close>.
\<close>

datatype 'a outcome = Returned 'a | Thrown

definition on :: "'a option \<Rightarrow> ('a \<Rightarrow> 'b outcome) \<Rightarrow> 'b outcome" where
  "on x f = (case x of None \<Rightarrow> Thrown | Some v \<Rightarrow> f v)"

definition and_then :: "'a outcome \<Rightarrow> ('a \<Rightarrow> 'b outcome) \<Rightarrow> 'b outcome" where
  "and_then r f = (case r of Thrown \<Rightarrow> Thrown | Returned v \<Rightarrow> f v)"

definition truthy :: "string option \<Rightarrow> bool" where
  "truthy t = (case t of None \<Rightarrow> False | Some x \<Rightarrow> x \<noteq> [])"

definition present :: "'a option \<Rightarrow> bool" where
  "present x = (x \<noteq> None)"

definition and_also :: "bool \<Rightarrow> bool outcome \<Rightarrow> bool outcome" where
  "and_also a r = (if a then r else Returned False)"

definition or_else :: "bool outcome \<Rightarrow> bool outcome \<Rightarrow> bool outcome" where
  "or_else l r = (case l of Thrown \<Rightarrow> Thrown | Returned b \<Rightarrow> if b then Returned True else r)"

text \<open>\<open>Array.prototype.filter\<close> with a callback that may throw.\<close>

fun filter_checked :: "('a \<Rightarrow> bool outcome) \<Rightarrow> 'a list \<Rightarrow> 'a list outcome" where
  "filter_checked P [] = Returned []"
| "filter_checked P (x # xs) =
     and_then (P x) (\<lambda>keep.
       and_then (filter_checked P xs) (\<lambda>rest. Returned (if keep then x # rest else rest)))"

definition text_includes :: "string option \<Rightarrow> string \<Rightarrow> bool outcome" where
  "text_includes t tok = on t (\<lambda>x. Returned (includes_str (toLowerCase x) tok))"

definition matchesQuery_checked :: "string \<Rightarrow> Provider \<Rightarrow> bool outcome" where
  "matchesQuery_checked query p =
     or_else (Returned (includes_str (toLowerCase (name p)) query))
    (or_else (Returned (includes_str (toLowerCase (specialty p)) query))
    (or_else (and_also (present (officeAddress p))
                (on (officeAddress p) (\<lambda>a.
                   Returned (includes_str (toLowerCase (formatAddress a)) query))))
    (or_else (Returned (includes_str (toLowerCase (about p)) query))
             (and_also (present (insurances p))
                (on (insurances p) (\<lambda>ins.
                   Returned (list_ex (\<lambda>i. includes_str (toLowerCase i) query) ins)))))))"

definition matchesInsurance_checked :: "string option \<Rightarrow> Provider \<Rightarrow> bool outcome" where
  "matchesInsurance_checked insurance p =
     and_also (present (insurances p))
       (on (insurances p) (\<lambda>ins.
          Returned (list_ex (\<lambda>i. Some (toLowerCase i) = map_option toLowerCase insurance) ins)))"

definition availableToday_checked :: "Provider \<Rightarrow> bool outcome" where
  "availableToday_checked p =
     and_also (truthy (nextAvailable p)) (text_includes (nextAvailable p) ''today'')"

definition availableThisWeek_checked :: "Provider \<Rightarrow> bool outcome" where
  "availableThisWeek_checked p =
     and_also (truthy (nextAvailable p))
       (or_else (text_includes (nextAvailable p) ''today'')
       (or_else (text_includes (nextAvailable p) ''tomorrow'')
       (or_else (text_includes (nextAvailable p) ''monday'')
       (or_else (text_includes (nextAvailable p) ''tuesday'')
       (or_else (text_includes (nextAvailable p) ''wednesday'')
       (or_else (text_includes (nextAvailable p) ''thursday'')
                (text_includes (nextAvailable p) ''friday'')))))))"

definition availableWeekends_checked :: "Provider \<Rightarrow> bool outcome" where
  "availableWeekends_checked p =
     and_also (truthy (nextAvailable p))
       (or_else (text_includes (nextAvailable p) ''saturday'')
                (text_includes (nextAvailable p) ''sunday''))"

definition speaksSpanish_checked :: "Provider \<Rightarrow> bool outcome" where
  "speaksSpanish_checked p =
     and_also (present (languages p))
       (on (languages p) (\<lambda>ls. Returned (list_ex (\<lambda>l. toLowerCase l = ''spanish'') ls)))"

definition stage_query_checked :: "ProviderFilter \<Rightarrow> Provider list \<Rightarrow> Provider list outcome" where
  "stage_query_checked flt ps =
     (if truthy (f_searchQuery flt) \<and> f_searchQuery flt \<noteq> Some ''''
      then on (f_searchQuery flt) (\<lambda>q. filter_checked (matchesQuery_checked (toLowerCase q)) ps)
      else Returned ps)"

definition stage_specialty_checked ::
  "ProviderFilter \<Rightarrow> Provider list \<Rightarrow> Provider list outcome" where
  "stage_specialty_checked flt ps =
     (if truthy (f_specialty flt) \<and> f_specialty flt \<noteq> Some ''''
      then filter_checked (\<lambda>p.
             Returned (Some (toLowerCase (specialty p)) = map_option toLowerCase (f_specialty flt)))
             ps
      else Returned ps)"

definition stage_insurance_checked ::
  "ProviderFilter \<Rightarrow> Provider list \<Rightarrow> Provider list outcome" where
  "stage_insurance_checked flt ps =
     (if truthy (f_insurance flt) \<and> f_insurance flt \<noteq> Some ''''
      then filter_checked (matchesInsurance_checked (f_insurance flt)) ps
      else Returned ps)"

definition stage_availability_checked ::
  "ProviderFilter \<Rightarrow> Provider list \<Rightarrow> Provider list outcome" where
  "stage_availability_checked flt ps =
     (if present (f_availability flt)
      then on (f_availability flt) (\<lambda>a.
             and_then (if today a then filter_checked availableToday_checked ps
                       else Returned ps) (\<lambda>ps1.
             and_then (if thisWeek a then filter_checked availableThisWeek_checked ps1
                       else Returned ps1) (\<lambda>ps2.
             if weekends a then filter_checked availableWeekends_checked ps2
             else Returned ps2)))
      else Returned ps)"

definition stage_additional_checked ::
  "ProviderFilter \<Rightarrow> Provider list \<Rightarrow> Provider list outcome" where
  "stage_additional_checked flt ps =
     (if present (f_additional flt)
      then on (f_additional flt) (\<lambda>ad.
             and_then (if add_acceptingNewPatients ad
                       then filter_checked (\<lambda>p. Returned (acceptingNewPatients p = Some True)) ps
                       else Returned ps) (\<lambda>ps1.
             and_then (if add_virtualVisits ad
                       then filter_checked (\<lambda>p. Returned (hasVirtualVisits p = Some True)) ps1
                       else Returned ps1) (\<lambda>ps2.
             if add_spanishSpeaking ad then filter_checked speaksSpanish_checked ps2
             else Returned ps2)))
      else Returned ps)"

text \<open>
  The three reading methods. Sorting, slicing, \<open>Map.get\<close> and \<open>Map.values\<close>
  dereference nothing that can be missing (the comparators use \<open>||\<close> and \<open>?.\<close> on
  the nullable columns), so they stay as above.
\<close>

definition searchProviders_checked :: "MemStorage \<Rightarrow> ProviderFilter \<Rightarrow> PageResult outcome" where
  "searchProviders_checked s flt =
     and_then (stage_query_checked flt (map_values (providers s))) (\<lambda>ps1.
     and_then (stage_specialty_checked flt ps1) (\<lambda>ps2.
     and_then (stage_insurance_checked flt ps2) (\<lambda>ps3.
     and_then (stage_availability_checked flt ps3) (\<lambda>ps4.
     and_then (stage_additional_checked flt ps4) (\<lambda>filtered.
       (let page = f_page flt;
            limit = f_limit flt;
            sortKey = f_sort flt;
            sortedProviders = sortProviders filtered sortKey;
            start = (page - 1) * limit;
            fin = start + limit;
            paginatedProviders = slice sortedProviders start fin;
            location = (case f_zipCode flt of
                          None \<Rightarrow> ''New York, NY''
                        | Some z \<Rightarrow> if z \<noteq> [] then ''Area near '' @ z else ''New York, NY'')
        in Returned \<lparr>r_providers = paginatedProviders,
                     r_total = int (length filtered),
                     r_location = Some location\<rparr>))))))"

definition getProviders_checked :: "MemStorage \<Rightarrow> Options option \<Rightarrow> PageResult outcome" where
  "getProviders_checked s options = Returned (getProviders s options)"

definition getProvider_checked :: "MemStorage \<Rightarrow> int \<Rightarrow> Provider option outcome" where
  "getProvider_checked s i = Returned (map_get (providers s) i)"

definition sparseProvider :: InsertProvider where
  "sparseProvider =
     sarahJohnson\<lparr>distance := None, nextAvailable := None, insurances := None,
                  languages := None, officeAddress := None\<rparr>"

definition storeSparse :: MemStorage where
  "storeSparse = newMemStorage [sparseProvider, sarahJohnson]"

definition filterEverything :: ProviderFilter where
  "filterEverything =
     \<lparr>f_searchQuery = Some ''park avenue'', f_specialty = Some ''cardiology'',
      f_zipCode = Some ''10022'', f_radius = None, f_insurance = Some ''cigna'',
      f_availability = Some \<lparr>today = True, thisWeek = True, weekends = False\<rparr>,
      f_additional = Some \<lparr>add_acceptingNewPatients = True, add_virtualVisits = False,
                           add_spanishSpeaking = True\<rparr>,
      f_page = 1, f_limit = 10, f_sort = ''availability''\<rparr>"




subsection \<open>What a filter requests\<close>

text \<open>
  The predicates of a search, stated from the description of the search and not from
  its code. Two texts are the same ignoring case if they are equal once both are in
  small letters; a text contains a query ignoring case if, both in small letters, the
  query is a contiguous part of the text (\<open>sublist\<close> is the library's notion). A list
  that is missing has no members.
\<close>

definition same_ignoring_case :: "string \<Rightarrow> string \<Rightarrow> bool" where
  "same_ignoring_case a b = (toLowerCase a = toLowerCase b)"

definition contains_ignoring_case :: "string \<Rightarrow> string \<Rightarrow> bool" where
  "contains_ignoring_case q t = sublist (toLowerCase q) (toLowerCase t)"

definition listed :: "'a list option \<Rightarrow> 'a list" where
  "listed xs = (case xs of None \<Rightarrow> [] | Some l \<Rightarrow> l)"

text \<open>
  The office address on one line: street, city and state separated by a comma and a
  blank, then a blank and the zip code.
\<close>

definition address_line :: "OfficeAddress \<Rightarrow> string" where
  "address_line a = concat [street a, '', '', city a, '', '', state a, '' '', zipCode a]"

text \<open>
  The texts the free-text query is matched against: the name, the specialty, the
  address line of the office if there is an office address, the biography and every
  insurance name.
\<close>

definition searched_texts :: "Provider \<Rightarrow> string list" where
  "searched_texts p =
     [name p, specialty p]
       @ (case officeAddress p of None \<Rightarrow> [] | Some a \<Rightarrow> [address_line a])
       @ [about p] @ listed (insurances p)"

text \<open>
  The free-text predicate: some searched text contains the query, ignoring case. It has
  no case of its own for the empty query.
\<close>

definition meets_query :: "ProviderFilter \<Rightarrow> Provider \<Rightarrow> bool" where
  "meets_query flt p =
     (case f_searchQuery flt of
        None \<Rightarrow> True
      | Some q \<Rightarrow> list_ex (contains_ignoring_case q) (searched_texts p))"

text \<open>A specialty or an insurance name is requested by a string that is not empty.\<close>

definition meets_specialty :: "ProviderFilter \<Rightarrow> Provider \<Rightarrow> bool" where
  "meets_specialty flt p =
     (case f_specialty flt of
        None \<Rightarrow> True
      | Some sp \<Rightarrow> sp = [] \<or> same_ignoring_case (specialty p) sp)"

definition meets_insurance :: "ProviderFilter \<Rightarrow> Provider \<Rightarrow> bool" where
  "meets_insurance flt p =
     (case f_insurance flt of
        None \<Rightarrow> True
      | Some i \<Rightarrow> i = [] \<or> list_ex (\<lambda>x. same_ignoring_case x i) (listed (insurances p)))"

definition meets_availability :: "ProviderFilter \<Rightarrow> Provider \<Rightarrow> bool" where
  "meets_availability flt p =
     (case f_availability flt of None \<Rightarrow> True | Some a \<Rightarrow> availability_ok a p)"

text \<open>
  The additional flags: each one that is switched on restricts the set, to the
  providers that accept new patients, that offer virtual visits, and that have
  \<open>spanish\<close>, ignoring case, among their languages.
\<close>

definition meets_additional :: "ProviderFilter \<Rightarrow> Provider \<Rightarrow> bool" where
  "meets_additional flt p =
     (case f_additional flt of
        None \<Rightarrow> True
      | Some ad \<Rightarrow>
          (add_acceptingNewPatients ad \<longrightarrow> acceptingNewPatients p = Some True)
          \<and> (add_virtualVisits ad \<longrightarrow> hasVirtualVisits p = Some True)
          \<and> (add_spanishSpeaking ad \<longrightarrow>
                list_ex (\<lambda>l. same_ignoring_case l ''spanish'') (listed (languages p))))"

definition meets :: "ProviderFilter \<Rightarrow> Provider \<Rightarrow> bool" where
  "meets flt p =
     (meets_query flt p \<and> meets_specialty flt p \<and> meets_insurance flt p
      \<and> meets_availability flt p \<and> meets_additional flt p)"

text \<open>
  A store of four providers, the last one the first one without an office address, and
  a filter with a text query that only the address line contains, written in other
  letter cases than the addresses are.
\<close>

definition unlocated :: InsertProvider where
  "unlocated = sarahJohnson\<lparr>officeAddress := None\<rparr>"

definition store4 :: MemStorage where
  "store4 = newMemStorage [sarahJohnson, michaelChen, alexRodriguez, unlocated]"

definition filterNewYork :: ProviderFilter where
  "filterNewYork =
     \<lparr>f_searchQuery = Some '', NEW york, ny 100'', f_specialty = None, f_zipCode = None,
      f_radius = None, f_insurance = None, f_availability = None,
      f_additional = Some \<lparr>add_acceptingNewPatients = True, add_virtualVisits = False,
                           add_spanishSpeaking = True\<rparr>,
      f_page = 1, f_limit = 1, f_sort = ''distance''\<rparr>"

definition filterNoText :: ProviderFilter where
  "filterNoText = filterNewYork\<lparr>f_searchQuery := Some ''''\<rparr>"

section \<open>Properties\<close>

subsection \<open>Records and maps\<close>

lemma extend_sel:
  "name (InsertProvider.extend d (Provider.fields i)) = name d"
  "title (InsertProvider.extend d (Provider.fields i)) = title d"
  "specialty (InsertProvider.extend d (Provider.fields i)) = specialty d"
  "profileImage (InsertProvider.extend d (Provider.fields i)) = profileImage d"
  "facilityName (InsertProvider.extend d (Provider.fields i)) = facilityName d"
  "distance (InsertProvider.extend d (Provider.fields i)) = distance d"
  "rating (InsertProvider.extend d (Provider.fields i)) = rating d"
  "reviewCount (InsertProvider.extend d (Provider.fields i)) = reviewCount d"
  "nextAvailable (InsertProvider.extend d (Provider.fields i)) = nextAvailable d"
  "insurances (InsertProvider.extend d (Provider.fields i)) = insurances d"
  "isInNetwork (InsertProvider.extend d (Provider.fields i)) = isInNetwork d"
  "hasVirtualVisits (InsertProvider.extend d (Provider.fields i)) = hasVirtualVisits d"
  "languages (InsertProvider.extend d (Provider.fields i)) = languages d"
  "about (InsertProvider.extend d (Provider.fields i)) = about d"
  "education (InsertProvider.extend d (Provider.fields i)) = education d"
  "certifications (InsertProvider.extend d (Provider.fields i)) = certifications d"
  "officeAddress (InsertProvider.extend d (Provider.fields i)) = officeAddress d"
  "officePhone (InsertProvider.extend d (Provider.fields i)) = officePhone d"
  "officeHours (InsertProvider.extend d (Provider.fields i)) = officeHours d"
  "acceptingNewPatients (InsertProvider.extend d (Provider.fields i)) = acceptingNewPatients d"
  "isSpanishSpeaking (InsertProvider.extend d (Provider.fields i)) = isSpanishSpeaking d"
  "provider_id (InsertProvider.extend d (Provider.fields i)) = i"
  "InsertProvider.truncate (InsertProvider.extend d (Provider.fields i)) = d"
  by (cases d; simp add: InsertProvider.defs Provider.defs)+

lemma extend_inj:
  "InsertProvider.extend d (Provider.fields i) = InsertProvider.extend d' (Provider.fields i')
   \<longleftrightarrow> d = d' \<and> i = i'"
  by (cases d; cases d'; simp add: InsertProvider.defs Provider.defs; blast)

lemma map_get_set_same: "map_get (map_set m k v) k = Some v"
  by (induction m) (auto simp: map_get_def)

lemma map_get_set_other: "k' \<noteq> k \<Longrightarrow> map_get (map_set m k v) k' = map_get m k'"
  by (induction m) (auto simp: map_get_def)

lemma map_set_fresh: "k \<notin> fst ` set m \<Longrightarrow> map_set m k v = m @ [(k, v)]"
  by (induction m) auto

lemma createProvider_eq:
  "createProvider d s =
     (InsertProvider.extend d (Provider.fields (currentProviderId s)),
      s\<lparr>currentProviderId := currentProviderId s + 1,
        providers := map_set (providers s) (currentProviderId s)
          (InsertProvider.extend d (Provider.fields (currentProviderId s)))\<rparr>)"
  by (simp add: createProvider_def Let_def)

lemma ids_below_fresh: "ids_below s \<Longrightarrow> currentProviderId s \<notin> fst ` set (providers s)"
  by (auto simp: ids_below_def list_all_iff)

lemma createProvider_appends:
  "ids_below s \<Longrightarrow>
   providers (snd (createProvider d s)) =
     providers s @ [(currentProviderId s, InsertProvider.extend d (Provider.fields (currentProviderId s)))]"
  by (simp add: createProvider_eq map_set_fresh ids_below_fresh)

lemma createProvider_counter:
  "currentProviderId (snd (createProvider d s)) = currentProviderId s + 1"
  by (simp add: createProvider_eq)

lemma createProvider_ids_below: "ids_below s \<Longrightarrow> ids_below (snd (createProvider d s))"
  using createProvider_appends[of s d]
  by (auto simp: ids_below_def list_all_iff createProvider_counter)

lemma ids_below_initial: "ids_below initialStorage"
  by (simp add: ids_below_def initialStorage_def)

lemma seedProviders_numbered:
  "ids_below s \<Longrightarrow>
   providers (seedProviders ds s) = providers s @ numbered (currentProviderId s) ds
   \<and> currentProviderId (seedProviders ds s) = currentProviderId s + int (length ds)
   \<and> ids_below (seedProviders ds s)"
proof (induction ds arbitrary: s)
  case Nil
  then show ?case by simp
next
  case (Cons d ds)
  have inv: "ids_below (snd (createProvider d s))"
    using Cons.prems by (rule createProvider_ids_below)
  show ?case
    using Cons.IH[OF inv] Cons.prems
    by (simp add: createProvider_appends createProvider_counter)
qed

lemma newMemStorage_providers: "providers (newMemStorage ds) = numbered 1 ds"
  using seedProviders_numbered[OF ids_below_initial, of ds]
  by (simp add: newMemStorage_def initialStorage_def)

lemma newMemStorage_counter: "currentProviderId (newMemStorage ds) = 1 + int (length ds)"
  using seedProviders_numbered[OF ids_below_initial, of ds]
  by (simp add: newMemStorage_def initialStorage_def)

lemma newMemStorage_ids_below: "ids_below (newMemStorage ds)"
  using seedProviders_numbered[OF ids_below_initial, of ds]
  by (simp add: newMemStorage_def)

lemma call_counter:
  "\<not> isCreateProvider r \<Longrightarrow> currentProviderId (snd (call r s)) = currentProviderId s"
  by (cases r) (simp_all add: createSpecialty_def createInsurancePlan_def Let_def)

lemma run_counter:
  "\<forall>r\<in>set rs. \<not> isCreateProvider r \<Longrightarrow> currentProviderId (run rs s) = currentProviderId s"
  by (induction rs arbitrary: s) (simp_all add: call_counter)

lemma createProvider_id: "provider_id (fst (createProvider d s)) = currentProviderId s"
  by (simp add: createProvider_eq extend_sel)

text \<open>
  C7. \<open>createProvider\<close> assigns the next sequential integer id. In a fresh store
  (the store as the constructor sets it up, before it has created a record) the first
  created record receives id 1, and the constructor's own seeding gives the seed
  records the ids 1, 2, ... in their order. A call of \<open>createProvider\<close> returns an id
  one greater than the call of \<open>createProvider\<close> before it, whatever calls of the other
  methods lie between the two. The record returned is the input data together with the
  id (the counter's value at the call), and it is the record stored under that id.
\<close>

theorem createProvider_sequential_ids:
  assumes "\<forall>r\<in>set rs. \<not> isCreateProvider r"
  shows "provider_id (fst (createProvider d0 initialStorage)) = 1
    \<and> providers (newMemStorage seedData) = numbered 1 seedData
    \<and> provider_id (fst (createProvider d2 (run rs (snd (createProvider d1 s)))))
        = provider_id (fst (createProvider d1 s)) + 1
    \<and> InsertProvider.truncate (fst (createProvider d s)) = d
    \<and> provider_id (fst (createProvider d s)) = currentProviderId s
    \<and> getProvider (snd (createProvider d s)) (currentProviderId s)
        = Some (fst (createProvider d s))"
proof -
  have first: "provider_id (fst (createProvider d0 initialStorage)) = 1"
    by (simp add: createProvider_id initialStorage_def)
  have counter: "currentProviderId (run rs (snd (createProvider d1 s))) = currentProviderId s + 1"
    using assms by (simp add: run_counter createProvider_counter)
  have nxt: "provider_id (fst (createProvider d2 (run rs (snd (createProvider d1 s)))))
        = provider_id (fst (createProvider d1 s)) + 1"
    by (simp add: createProvider_id counter)
  have stored: "getProvider (snd (createProvider d s)) (currentProviderId s)
        = Some (fst (createProvider d s))"
    by (simp add: createProvider_eq getProvider_def map_get_set_same)
  show ?thesis
    using first nxt stored
    by (simp add: newMemStorage_providers createProvider_eq extend_sel)
qed

theorem createProvider_sequential_ids_witness:
  "provider_id (fst (createProvider sarahJohnson initialStorage)) = 1
    \<and> providers (newMemStorage [sarahJohnson, michaelChen])
        = numbered 1 [sarahJohnson, michaelChen]
    \<and> provider_id (fst (createProvider alexRodriguez
          (run [GetProvider 1, GetSpecialties]
            (snd (createProvider michaelChen (newMemStorage [sarahJohnson]))))))
        = provider_id (fst (createProvider michaelChen (newMemStorage [sarahJohnson]))) + 1
    \<and> InsertProvider.truncate (fst (createProvider michaelChen (newMemStorage [sarahJohnson])))
        = michaelChen
    \<and> provider_id (fst (createProvider michaelChen (newMemStorage [sarahJohnson])))
        = currentProviderId (newMemStorage [sarahJohnson])
    \<and> getProvider (snd (createProvider michaelChen (newMemStorage [sarahJohnson])))
          (currentProviderId (newMemStorage [sarahJohnson]))
        = Some (fst (createProvider michaelChen (newMemStorage [sarahJohnson])))"
proof -
  have h: "\<forall>r\<in>set [GetProvider 1, GetSpecialties]. \<not> isCreateProvider r"
    by simp
  show ?thesis
    by (rule createProvider_sequential_ids[OF h])
qed

text \<open>
  C10. Create, then read: if \<open>createProvider\<close> of the data \<open>d\<close> returns a record
  with id \<open>n\<close>, then \<open>getProvider\<close> of \<open>n\<close> in the store it leaves returns exactly
  that record, which is \<open>d\<close> together with the id \<open>n\<close>.
\<close>

theorem create_then_get:
  assumes "createProvider d s = (p, s')" and "provider_id p = n"
  shows "getProvider s' n = Some p \<and> p = InsertProvider.extend d (Provider.fields n)"
proof -
  from assms(1) have p: "p = InsertProvider.extend d (Provider.fields (currentProviderId s))"
    and s': "providers s' = map_set (providers s) (currentProviderId s) p"
    by (auto simp: createProvider_eq)
  from p assms(2) have n: "n = currentProviderId s"
    by (simp add: extend_sel)
  show ?thesis
    using p s' n by (simp add: getProvider_def map_get_set_same)
qed

theorem create_then_get_witness:
  "getProvider (snd (createProvider sarahJohnson (newMemStorage [michaelChen]))) 2
     = Some (InsertProvider.extend sarahJohnson (Provider.fields 2))"
proof -
  have c: "createProvider sarahJohnson (newMemStorage [michaelChen])
      = (InsertProvider.extend sarahJohnson (Provider.fields 2),
         snd (createProvider sarahJohnson (newMemStorage [michaelChen])))"
    by (simp add: createProvider_eq newMemStorage_counter)
  have i: "provider_id (InsertProvider.extend sarahJohnson (Provider.fields 2)) = 2"
    by (simp add: extend_sel)
  show ?thesis
    using create_then_get[OF c i] by simp
qed

subsection \<open>Sorting and slicing\<close>

lemma mset_insert_cmp: "mset (insert_cmp cmp x xs) = add_mset x (mset xs)"
  by (induction xs) auto

lemma mset_array_sort: "mset (array_sort cmp xs) = mset xs"
  by (induction xs) (auto simp: array_sort_def mset_insert_cmp)

lemma mset_sortProviders: "mset (sortProviders ps k) = mset ps"
  by (simp add: sortProviders_def mset_array_sort)

lemma set_sortProviders: "set (sortProviders ps k) = set ps"
  using mset_sortProviders[of ps k] by (metis set_mset_mset)


lemma toInteger_simps:
  "toInteger 0 = 0" "toInteger 1 = 1" "toInteger (numeral n) = numeral n"
  "toInteger (of_int i) = i"
  by (simp_all add: toInteger_def)

lemma clamp_forward:
  fixes a b :: int
  assumes "0 \<le> a" and "a \<le> b"
  shows "take (nat (min b (int (length xs)) - min a (int (length xs))))
           (drop (nat (min a (int (length xs)))) xs)
         = take (nat b - nat a) (drop (nat a) xs)"
proof (cases "a \<le> int (length xs)")
  case True
  then have "min a (int (length xs)) = a" by simp
  moreover have "take (nat (min b (int (length xs)) - a)) (drop (nat a) xs)
      = take (nat b - nat a) (drop (nat a) xs)"
    using assms True by (cases "b \<le> int (length xs)") (simp_all add: min_def nat_diff_distrib)
  ultimately show ?thesis by simp
next
  case False
  then show ?thesis using assms by simp
qed

lemma slice_forward:
  assumes "0 \<le> toInteger start" and "toInteger start \<le> toInteger fin"
  shows "slice xs start fin
         = take (nat (toInteger fin) - nat (toInteger start)) (drop (nat (toInteger start)) xs)"
  using assms clamp_forward[OF assms, of xs] by (simp add: slice_def Let_def)



lemma set_slice: "set (slice xs start fin) \<subseteq> set xs"
  unfolding slice_def Let_def
  by (meson set_take_subset set_drop_subset subset_trans)

lemma length_numbered: "length (numbered i ds) = length ds"
  by (induction ds arbitrary: i) auto

subsection \<open>The store only grows\<close>

lemma call_prefix:
  assumes "ids_below s"
  shows "prefix (providers s) (providers (snd (call r s))) \<and> ids_below (snd (call r s))"
proof (cases r)
  case (CreateProvider d)
  then show ?thesis
    using assms createProvider_appends[OF assms, of d] createProvider_ids_below[OF assms, of d]
    by (simp add: split_beta)
next
  case (CreateSpecialty sp)
  then show ?thesis
    using assms by (simp add: createSpecialty_def Let_def ids_below_def)
next
  case (CreateInsurancePlan plan)
  then show ?thesis
    using assms by (simp add: createInsurancePlan_def Let_def ids_below_def)
qed (use assms in simp_all)

lemma run_prefix:
  "ids_below s \<Longrightarrow> prefix (providers s) (providers (run rs s)) \<and> ids_below (run rs s)"
proof (induction rs arbitrary: s)
  case Nil
  then show ?case by simp
next
  case (Cons r rs)
  from call_prefix[OF Cons.prems, of r]
  have step: "prefix (providers s) (providers (snd (call r s)))"
    and inv: "ids_below (snd (call r s))"
    by simp_all
  from Cons.IH[OF inv] step show ?case
    by (auto intro: prefix_order.trans)
qed

lemma map_get_prefix:
  assumes "prefix m m'" and "map_get m k = Some v"
  shows "map_get m' k = Some v"
proof -
  from assms(1) obtain r where "m' = m @ r"
    by (auto simp: prefix_def)
  with assms(2) show ?thesis
    by (simp add: map_get_def)
qed

text \<open>
  C9. In a store built by the constructor and any sequence of calls, a record that is
  present stays present and unchanged under every further sequence of calls of the
  eight methods (there is no other one); the entries that were there keep their
  places, and the three reading methods return the store as it was.
\<close>

theorem created_records_persist:
  assumes "getProvider (run rs0 (newMemStorage seedData)) i = Some p"
  shows "getProvider (run rs (run rs0 (newMemStorage seedData))) i = Some p
    \<and> prefix (providers (run rs0 (newMemStorage seedData)))
             (providers (run rs (run rs0 (newMemStorage seedData))))
    \<and> snd (call (GetProviders opts) s) = s
    \<and> snd (call (SearchProviders flt) s) = s
    \<and> snd (call (GetProvider j) s) = s"
proof -
  have inv: "ids_below (run rs0 (newMemStorage seedData))"
    using run_prefix[OF newMemStorage_ids_below] by simp
  have grow: "prefix (providers (run rs0 (newMemStorage seedData)))
             (providers (run rs (run rs0 (newMemStorage seedData))))"
    using run_prefix[OF inv] by simp
  from map_get_prefix[OF grow] assms
  have "getProvider (run rs (run rs0 (newMemStorage seedData))) i = Some p"
    by (simp add: getProvider_def)
  with grow show ?thesis by simp
qed

theorem created_records_persist_witness:
  "getProvider
     (run [CreateProvider alexRodriguez, GetProviders None, CreateSpecialty \<lparr>sp_name = ''Urology''\<rparr>,
           GetProvider 2, CreateProvider sarahJohnson]
       (run [CreateProvider michaelChen] (newMemStorage [sarahJohnson]))) 2
     = Some (InsertProvider.extend michaelChen (Provider.fields 2))"
proof -
  have h: "getProvider (run [CreateProvider michaelChen] (newMemStorage [sarahJohnson])) 2
      = Some (InsertProvider.extend michaelChen (Provider.fields 2))"
    by (simp add: getProvider_def map_get_def createProvider_eq newMemStorage_providers
        newMemStorage_counter)
  show ?thesis
    by (rule conjunct1[OF created_records_persist[OF h]])
qed

subsection \<open>The stages of the search\<close>

lemma includes_str_sublist: "includes_str s sub \<longleftrightarrow> sublist sub s"
  by (induction s) (simp_all add: sublist_Cons_right)

lemma guarded_contains:
  "guarded t (\<lambda>x. includes_str (toLowerCase x) tok) = (tok \<noteq> [] \<and> contains_ci t tok \<or> tok = [] \<and> (\<exists>x. t = Some x \<and> x \<noteq> []))"
  by (cases t) (auto simp: guarded_def contains_ci_def includes_str_sublist toLowerCase_def)

lemma stage_query_filter: "stage_query flt ps = filter (wants_query flt) ps"
  by (simp add: stage_query_def wants_query_def[abs_def] split: option.splits)

lemma stage_specialty_filter: "stage_specialty flt ps = filter (wants_specialty flt) ps"
  by (simp add: stage_specialty_def wants_specialty_def[abs_def] split: option.splits)

lemma stage_insurance_filter: "stage_insurance flt ps = filter (wants_insurance flt) ps"
  by (simp add: stage_insurance_def wants_insurance_def[abs_def] split: option.splits)

lemma stage_availability_filter: "stage_availability flt ps = filter (wants_availability flt) ps"
  by (simp add: stage_availability_def wants_availability_def[abs_def] Let_def split: option.splits)

lemma stage_additional_filter: "stage_additional flt ps = filter (wants_additional flt) ps"
  by (simp add: stage_additional_def wants_additional_def[abs_def] Let_def split: option.splits)

lemma filteredProviders_filter:
  "filteredProviders s flt = filter (satisfies flt) (map_values (providers s))"
  by (simp add: filteredProviders_def stage_query_filter stage_specialty_filter
      stage_insurance_filter stage_availability_filter stage_additional_filter
      satisfies_def[abs_def] conj_commute conj_left_commute)

lemma searchProviders_total:
  "r_total (searchProviders s flt) = int (length (filteredProviders s flt))"
  by (simp add: searchProviders_def Let_def)

lemma searchProviders_subset:
  "set (r_providers (searchProviders s flt)) \<subseteq> set (filteredProviders s flt)"
  using set_slice[of "sortProviders (filteredProviders s flt) (f_sort flt)"]
  by (simp add: searchProviders_def Let_def set_sortProviders)

subsection \<open>The example store\<close>

lemma store3_values:
  "map_values (providers store3) =
     [InsertProvider.extend sarahJohnson (Provider.fields 1),
      InsertProvider.extend michaelChen (Provider.fields 2),
      InsertProvider.extend alexRodriguez (Provider.fields 3)]"
  by (simp add: store3_def seed3_def newMemStorage_providers map_values_def)

lemma sarah_fields:
  "specialty sarahJohnson = ''Cardiology''"
  "nextAvailable sarahJohnson = Some ''Today, 2:30 PM''"
  "insurances sarahJohnson = Some [''Aetna'', ''Blue Cross Blue Shield'', ''Cigna'', ''Medicare'']"
  "languages sarahJohnson = Some [''English'', ''Spanish'']"
  "acceptingNewPatients sarahJohnson = Some True"
  "hasVirtualVisits sarahJohnson = Some False"
  "distance sarahJohnson = Some 2.3"
  "rating sarahJohnson = 4.5"
  "reviewCount sarahJohnson = 128"
  by (simp_all add: sarahJohnson_def)

lemma michael_fields:
  "specialty michaelChen = ''Primary Care''"
  "nextAvailable michaelChen = Some ''Tomorrow, 9:15 AM''"
  "insurances michaelChen =
     Some [''UnitedHealthcare'', ''Blue Cross Blue Shield'', ''Humana'', ''Medicaid'']"
  "languages michaelChen = Some [''English'', ''Mandarin'']"
  "acceptingNewPatients michaelChen = Some True"
  "hasVirtualVisits michaelChen = Some True"
  "distance michaelChen = Some 1.8"
  "rating michaelChen = 4"
  "reviewCount michaelChen = 97"
  by (simp_all add: michaelChen_def)

lemma alex_fields:
  "specialty alexRodriguez = ''Dermatology''"
  "nextAvailable alexRodriguez = Some ''Friday, 1:00 PM''"
  "insurances alexRodriguez =
     Some [''Aetna'', ''Cigna'', ''Oscar'', ''UnitedHealthcare'', ''Medicare'']"
  "languages alexRodriguez = Some [''English'', ''Spanish'']"
  "acceptingNewPatients alexRodriguez = Some True"
  "hasVirtualVisits alexRodriguez = Some True"
  "distance alexRodriguez = Some 3.5"
  "rating alexRodriguez = 5"
  "reviewCount alexRodriguez = 213"
  by (simp_all add: alexRodriguez_def)

lemmas seed_fields = sarah_fields michael_fields alex_fields

lemmas lower_eval = toLowerCase_def toLowerChar_def

lemma filterCardio_fields:
  "f_page filterCardio = 1" "f_limit filterCardio = 10" "f_sort filterCardio = ''rating''"
  "f_specialty filterCardio = Some ''CARDIOLOGY''"
  "f_insurance filterCardio = Some ''medicare''"
  by (simp_all add: filterCardio_def)

lemma filterCardio_satisfies:
  "satisfies filterCardio (InsertProvider.extend sarahJohnson (Provider.fields 1))"
  "\<not> satisfies filterCardio (InsertProvider.extend michaelChen (Provider.fields 2))"
  "\<not> satisfies filterCardio (InsertProvider.extend alexRodriguez (Provider.fields 3))"
  by code_simp+

text \<open>
  C2. Whatever the rest of the filter, every provider that \<open>searchProviders\<close> returns
  under a filter with a non-empty specialty string has that specialty up to the case of
  letters, and every provider it returns under a filter with a non-empty insurance
  string lists an insurance name equal to it up to the case of letters.
\<close>

theorem search_results_specialty_insurance:
  assumes "p \<in> set (r_providers (searchProviders s flt))"
  shows "(f_specialty flt = Some sp \<and> sp \<noteq> [] \<longrightarrow>
            toLowerCase (specialty p) = toLowerCase sp)
       \<and> (f_insurance flt = Some ins \<and> ins \<noteq> [] \<longrightarrow>
            (\<exists>listed. insurances p = Some listed
               \<and> (\<exists>i \<in> set listed. toLowerCase i = toLowerCase ins)))"
proof -
  from assms searchProviders_subset[of s flt]
  have "p \<in> set (filteredProviders s flt)" by blast
  then have sat: "satisfies flt p"
    by (simp add: filteredProviders_filter)
  have spec: "toLowerCase (specialty p) = toLowerCase sp"
    if "f_specialty flt = Some sp" "sp \<noteq> []"
    using sat that by (simp add: satisfies_def wants_specialty_def matchesSpecialty_def)
  have insu: "\<exists>listed. insurances p = Some listed
               \<and> (\<exists>i \<in> set listed. toLowerCase i = toLowerCase ins)"
    if "f_insurance flt = Some ins" "ins \<noteq> []"
  proof -
    from sat that have "matchesInsurance ins p"
      by (simp add: satisfies_def wants_insurance_def)
    then show ?thesis
      by (cases "insurances p") (auto simp: matchesInsurance_def list_ex_iff)
  qed
  from spec insu show ?thesis by blast
qed

theorem search_results_specialty_insurance_witness:
  "r_providers (searchProviders store3 filterCardio)
     = [InsertProvider.extend sarahJohnson (Provider.fields 1)]
   \<and> toLowerCase (specialty (InsertProvider.extend sarahJohnson (Provider.fields 1)))
       = toLowerCase ''CARDIOLOGY''
   \<and> (\<exists>listed. insurances (InsertProvider.extend sarahJohnson (Provider.fields 1)) = Some listed
         \<and> (\<exists>i \<in> set listed. toLowerCase i = toLowerCase ''medicare''))"
proof -
  have flt: "filteredProviders store3 filterCardio
      = [InsertProvider.extend sarahJohnson (Provider.fields 1)]"
    by (simp add: filteredProviders_filter store3_values filterCardio_satisfies)
  have page: "r_providers (searchProviders store3 filterCardio)
      = [InsertProvider.extend sarahJohnson (Provider.fields 1)]"
    by (simp add: searchProviders_def Let_def filterCardio_fields flt sortProviders_def
        array_sort_def slice_forward toInteger_simps)
  then have p: "InsertProvider.extend sarahJohnson (Provider.fields 1)
      \<in> set (r_providers (searchProviders store3 filterCardio))"
    by simp
  show ?thesis
    using search_results_specialty_insurance[OF p, of "''CARDIOLOGY''" "''medicare''"] page
    by (simp add: filterCardio_fields)
qed

subsection \<open>Availability\<close>

lemma availableToday_contains:
  "availableToday p \<longleftrightarrow> contains_ci (nextAvailable p) ''today''"
  by (simp add: availableToday_def guarded_contains)

lemma guarded_disj:
  "guarded t (\<lambda>x. P x \<or> Q x) \<longleftrightarrow> guarded t P \<or> guarded t Q"
  by (cases t) (auto simp: guarded_def)

lemma availableThisWeek_contains:
  "availableThisWeek p \<longleftrightarrow>
     list_ex (contains_ci (nextAvailable p)) ([''today'', ''tomorrow''] @ weekday_tokens)"
  by (simp add: availableThisWeek_def guarded_disj guarded_contains weekday_tokens_def)

lemma availableWeekends_contains:
  "availableWeekends p \<longleftrightarrow>
     list_ex (contains_ci (nextAvailable p)) [''saturday'', ''sunday'']"
  by (simp add: availableWeekends_def guarded_disj guarded_contains)

lemma wants_availability_ok:
  "f_availability flt = Some a \<Longrightarrow> wants_availability flt p = availability_ok a p"
  by (simp add: wants_availability_def availability_ok_def availableToday_contains
      availableThisWeek_contains availableWeekends_contains)








subsection \<open>Sorting by a key\<close>

lemma insert_cmp_key:
  assumes "\<And>a b. cmp a b \<le> 0 \<longleftrightarrow> key a \<le> key b"
  shows "insert_cmp cmp x ys = insort_key key x ys"
  by (induction ys) (simp_all add: assms)

lemma array_sort_key:
  assumes "\<And>a b. cmp a b \<le> 0 \<longleftrightarrow> key a \<le> key b"
  shows "array_sort cmp xs = sort_key key xs"
proof -
  have "insert_cmp cmp = insort_key key"
    using insert_cmp_key[of cmp key, OF assms] by (intro ext)
  then show ?thesis
    by (simp add: array_sort_def sort_key_def)
qed

lemma text_has_contains: "text_has t tok = contains_ci t tok"
  by (cases t) (simp_all add: text_has_def contains_ci_def includes_str_sublist)

lemma cmp_availability_rank:
  "cmp_availability a b \<le> 0 \<longleftrightarrow> availability_rank a \<le> availability_rank b"
  by (simp add: cmp_availability_def availability_rank_def text_has_contains Let_def)

lemma sort_availability_rank:
  "sortProviders ps ''availability'' = sort_key availability_rank ps"
  by (simp add: sortProviders_def array_sort_key[of cmp_availability availability_rank]
      cmp_availability_rank)

lemma cmp_relevance_score: "cmp_relevance a b \<le> 0 \<longleftrightarrow> - score a \<le> - score b"
  by (simp add: cmp_relevance_def)

lemma sort_relevance_score:
  "k \<noteq> ''distance'' \<Longrightarrow> k \<noteq> ''rating'' \<Longrightarrow> k \<noteq> ''availability'' \<Longrightarrow>
   sortProviders ps k = sort_key (\<lambda>p. - score p) ps"
  by (simp add: sortProviders_def array_sort_key[of cmp_relevance "\<lambda>p. - score p"]
      cmp_relevance_score)

lemma sorted_wrt_sort_key:
  fixes key :: "'a \<Rightarrow> 'k::linorder"
  shows "sorted_wrt (\<lambda>a b. key a \<le> key b) (sort_key key xs)"
  using sorted_sort_key[of key xs] by (simp add: sorted_map)

text \<open>The orders by distance (ascending, a missing distance as 0) and by rating (descending).\<close>

lemma sort_distance_key:
  "sortProviders ps ''distance'' = sort_key (\<lambda>p. or_zero (distance p)) ps"
  by (simp add: sortProviders_def cmp_distance_def
      array_sort_key[of cmp_distance "\<lambda>p. or_zero (distance p)"])

lemma sort_rating_key:
  "sortProviders ps ''rating'' = sort_key (\<lambda>p. - rating p) ps"
  by (simp add: sortProviders_def cmp_rating_def
      array_sort_key[of cmp_rating "\<lambda>p. - rating p"])

lemma sort_distance_ascending:
  "sorted_wrt (\<lambda>x y. or_zero (distance x) \<le> or_zero (distance y)) (sortProviders ps ''distance'')"
  unfolding sort_distance_key by (rule sorted_wrt_sort_key)

lemma sort_rating_descending:
  "sorted_wrt (\<lambda>x y. rating y \<le> rating x) (sortProviders ps ''rating'')"
  using sorted_wrt_sort_key[of "\<lambda>p. - rating p" ps] by (simp add: sort_rating_key)

subsection \<open>The availability order\<close>

lemma availability_rank_cases:
  "(contains_ci (nextAvailable p) ''today'' = t \<and> contains_ci (nextAvailable p) ''tomorrow'' = m)
   \<longleftrightarrow> availability_rank p = (if t then 0 else 2) + (if m then 0 else 1)"
  by (auto simp: availability_rank_def)

text \<open>
  C6, as stated, fails: two providers whose texts both have \<open>today\<close> are not ordered
  by the first two rules of the claim, yet the one whose text also has \<open>tomorrow\<close> is
  moved in front of the other.
\<close>

theorem availability_ties_counterexample:
  "contains_ci (nextAvailable (InsertProvider.extend sarahJohnson (Provider.fields 1))) ''today''
   \<and> contains_ci (nextAvailable (InsertProvider.extend todayOrTomorrow (Provider.fields 2))) ''today''
   \<and> map provider_id
        (sortProviders [InsertProvider.extend sarahJohnson (Provider.fields 1),
                        InsertProvider.extend todayOrTomorrow (Provider.fields 2)]
           ''availability'') = [2, 1]"
proof -
  have 1: "text_has (nextAvailable (InsertProvider.extend sarahJohnson (Provider.fields 1))) ''today''"
    "\<not> text_has (nextAvailable (InsertProvider.extend sarahJohnson (Provider.fields 1))) ''tomorrow''"
    "text_has (nextAvailable (InsertProvider.extend todayOrTomorrow (Provider.fields 2))) ''today''"
    "text_has (nextAvailable (InsertProvider.extend todayOrTomorrow (Provider.fields 2))) ''tomorrow''"
    by code_simp+
  have "sortProviders [InsertProvider.extend sarahJohnson (Provider.fields 1),
                        InsertProvider.extend todayOrTomorrow (Provider.fields 2)]
           ''availability''
        = [InsertProvider.extend todayOrTomorrow (Provider.fields 2),
           InsertProvider.extend sarahJohnson (Provider.fields 1)]"
    by (simp add: sortProviders_def array_sort_def cmp_availability_def 1)
  then show ?thesis
    using 1 by (simp add: text_has_contains extend_sel)
qed

text \<open>
  C6, amended. Sorting with \<open>sort = availability\<close> rearranges the list so that every
  provider whose next-available text has \<open>today\<close> comes before every provider whose
  text has not; among providers that agree on \<open>today\<close> (both with it or both without
  it), those whose text has \<open>tomorrow\<close> come before those whose text has not; and
  the providers that agree on both keep the order they had in the input.
\<close>

theorem sort_availability_order:
  fixes ps :: "Provider list"
  defines "out \<equiv> sortProviders ps ''availability''"
  shows "mset out = mset ps
    \<and> sorted_wrt (\<lambda>a b. contains_ci (nextAvailable b) ''today''
                        \<longrightarrow> contains_ci (nextAvailable a) ''today'') out
    \<and> sorted_wrt (\<lambda>a b. contains_ci (nextAvailable a) ''today''
                          = contains_ci (nextAvailable b) ''today''
                        \<and> contains_ci (nextAvailable b) ''tomorrow''
                        \<longrightarrow> contains_ci (nextAvailable a) ''tomorrow'') out
    \<and> filter (\<lambda>p. contains_ci (nextAvailable p) ''today'' = t
                  \<and> contains_ci (nextAvailable p) ''tomorrow'' = m) out
        = filter (\<lambda>p. contains_ci (nextAvailable p) ''today'' = t
                  \<and> contains_ci (nextAvailable p) ''tomorrow'' = m) ps"
proof -
  have out: "out = sort_key availability_rank ps"
    by (simp add: out_def sort_availability_rank)
  have ranked: "sorted_wrt (\<lambda>a b. availability_rank a \<le> availability_rank b) out"
    unfolding out by (rule sorted_wrt_sort_key)
  have today: "sorted_wrt (\<lambda>a b. contains_ci (nextAvailable b) ''today''
                        \<longrightarrow> contains_ci (nextAvailable a) ''today'') out"
    by (rule sorted_wrt_mono_rel[OF _ ranked]) (auto simp: availability_rank_def split: if_splits)
  have tomorrow: "sorted_wrt (\<lambda>a b. contains_ci (nextAvailable a) ''today''
                          = contains_ci (nextAvailable b) ''today''
                        \<and> contains_ci (nextAvailable b) ''tomorrow''
                        \<longrightarrow> contains_ci (nextAvailable a) ''tomorrow'') out"
    by (rule sorted_wrt_mono_rel[OF _ ranked]) (auto simp: availability_rank_def split: if_splits)
  have stable: "filter (\<lambda>p. contains_ci (nextAvailable p) ''today'' = t
                  \<and> contains_ci (nextAvailable p) ''tomorrow'' = m) out
        = filter (\<lambda>p. contains_ci (nextAvailable p) ''today'' = t
                  \<and> contains_ci (nextAvailable p) ''tomorrow'' = m) ps"
    unfolding out availability_rank_cases by (rule sort_key_stable)
  show ?thesis
    using today tomorrow stable by (simp add: out)
qed

theorem sort_availability_order_witness:
  "map provider_id
     (sortProviders [InsertProvider.extend alexRodriguez (Provider.fields 3),
                     InsertProvider.extend laterProvider (Provider.fields 4),
                     InsertProvider.extend michaelChen (Provider.fields 2),
                     InsertProvider.extend sarahJohnson (Provider.fields 1)] ''availability'')
     = [1, 2, 3, 4]
   \<and> sorted_wrt (\<lambda>a b. contains_ci (nextAvailable b) ''today''
                        \<longrightarrow> contains_ci (nextAvailable a) ''today'')
       (sortProviders [InsertProvider.extend alexRodriguez (Provider.fields 3),
                     InsertProvider.extend laterProvider (Provider.fields 4),
                     InsertProvider.extend michaelChen (Provider.fields 2),
                     InsertProvider.extend sarahJohnson (Provider.fields 1)] ''availability'')
   \<and> map provider_id
       (filter (\<lambda>p. contains_ci (nextAvailable p) ''today'' = False
                  \<and> contains_ci (nextAvailable p) ''tomorrow'' = False)
         (sortProviders [InsertProvider.extend alexRodriguez (Provider.fields 3),
                     InsertProvider.extend laterProvider (Provider.fields 4),
                     InsertProvider.extend michaelChen (Provider.fields 2),
                     InsertProvider.extend sarahJohnson (Provider.fields 1)] ''availability''))
     = [3, 4]"
proof -
  let ?xs = "[InsertProvider.extend alexRodriguez (Provider.fields 3),
              InsertProvider.extend laterProvider (Provider.fields 4),
              InsertProvider.extend michaelChen (Provider.fields 2),
              InsertProvider.extend sarahJohnson (Provider.fields 1)]"
  have has:
    "text_has (nextAvailable (InsertProvider.extend sarahJohnson (Provider.fields 1))) ''today''"
    "\<not> text_has (nextAvailable (InsertProvider.extend sarahJohnson (Provider.fields 1))) ''tomorrow''"
    "\<not> text_has (nextAvailable (InsertProvider.extend michaelChen (Provider.fields 2))) ''today''"
    "text_has (nextAvailable (InsertProvider.extend michaelChen (Provider.fields 2))) ''tomorrow''"
    "\<not> text_has (nextAvailable (InsertProvider.extend alexRodriguez (Provider.fields 3))) ''today''"
    "\<not> text_has (nextAvailable (InsertProvider.extend alexRodriguez (Provider.fields 3))) ''tomorrow''"
    "\<not> text_has (nextAvailable (InsertProvider.extend laterProvider (Provider.fields 4))) ''today''"
    "\<not> text_has (nextAvailable (InsertProvider.extend laterProvider (Provider.fields 4))) ''tomorrow''"
    by code_simp+
  have ev: "sortProviders ?xs ''availability''
      = [InsertProvider.extend sarahJohnson (Provider.fields 1),
         InsertProvider.extend michaelChen (Provider.fields 2),
         InsertProvider.extend alexRodriguez (Provider.fields 3),
         InsertProvider.extend laterProvider (Provider.fields 4)]"
    by (simp add: sortProviders_def array_sort_def cmp_availability_def has)
  note t = sort_availability_order[of ?xs False False]
  from t have srt: "sorted_wrt (\<lambda>a b. contains_ci (nextAvailable b) ''today''
                        \<longrightarrow> contains_ci (nextAvailable a) ''today'')
       (sortProviders ?xs ''availability'')"
    by (rule conjunct1[OF conjunct2])
  from t have "filter (\<lambda>p. contains_ci (nextAvailable p) ''today'' = False
                  \<and> contains_ci (nextAvailable p) ''tomorrow'' = False)
         (sortProviders ?xs ''availability'')
      = filter (\<lambda>p. contains_ci (nextAvailable p) ''today'' = False
                  \<and> contains_ci (nextAvailable p) ''tomorrow'' = False) ?xs"
    by (rule conjunct2[OF conjunct2[OF conjunct2]])
  then have st: "map provider_id
       (filter (\<lambda>p. contains_ci (nextAvailable p) ''today'' = False
                  \<and> contains_ci (nextAvailable p) ''tomorrow'' = False)
         (sortProviders ?xs ''availability'')) = [3, 4]"
    using has by (simp add: text_has_contains extend_sel)
  have ids: "map provider_id (sortProviders ?xs ''availability'') = [1, 2, 3, 4]"
    by (simp add: ev extend_sel)
  from ids srt st show ?thesis by (intro conjI)
qed

subsection \<open>The relevance score\<close>

lemma score_zero_reviews: "reviewCount p = 0 \<Longrightarrow> score p = 0"
  by (simp add: score_def)

lemma score_mono_rating:
  assumes "reviewCount a = reviewCount b" and "0 \<le> reviewCount a" and "rating a \<le> rating b"
  shows "score a \<le> score b"
proof -
  have "0 \<le> ln (real_of_int (reviewCount a + 1))"
    using assms(2) by simp
  then show ?thesis
    using assms(1,3) by (simp add: score_def mult_right_mono)
qed

lemma score_mono_reviews:
  assumes "rating a = rating b" and "0 \<le> rating a"
    and "0 \<le> reviewCount a" and "reviewCount a \<le> reviewCount b"
  shows "score a \<le> score b"
proof -
  have "ln (real_of_int (reviewCount a + 1)) \<le> ln (real_of_int (reviewCount b + 1))"
    using assms(3,4) by simp
  then show ?thesis
    using assms(1,2) by (simp add: score_def mult_left_mono)
qed

text \<open>
  C4, as stated, fails: for a negative rating the score falls as the review count
  grows.
\<close>

theorem score_monotone_counterexample:
  "rating (InsertProvider.extend (badlyRated 0) (Provider.fields 1))
     = rating (InsertProvider.extend (badlyRated 1) (Provider.fields 2))
   \<and> reviewCount (InsertProvider.extend (badlyRated 0) (Provider.fields 1))
     \<le> reviewCount (InsertProvider.extend (badlyRated 1) (Provider.fields 2))
   \<and> score (InsertProvider.extend (badlyRated 1) (Provider.fields 2))
     < score (InsertProvider.extend (badlyRated 0) (Provider.fields 1))"
proof -
  have "(0::real) < ln 2" by simp
  then show ?thesis
    by (simp add: score_def extend_sel badlyRated_def)
qed

text \<open>
  C4, amended. On providers with review counts \<open>\<ge> 0\<close>, sorting with
  \<open>sort = relevance\<close> rearranges the list in descending order of the score
  \<open>rating * ln (reviewCount + 1)\<close>. The score is 0 for every provider with review
  count 0, whatever the rating. For a fixed review count \<open>\<ge> 0\<close> the score does not
  fall as the rating grows, and for a fixed rating \<open>\<ge> 0\<close> it does not fall as the
  review count grows from 0 on.
\<close>

theorem sort_relevance_order:
  assumes "\<forall>p \<in> set ps. 0 \<le> reviewCount p"
  shows "sorted_wrt (\<lambda>x y. score y \<le> score x) (sortProviders ps ''relevance'')
    \<and> mset (sortProviders ps ''relevance'') = mset ps
    \<and> (reviewCount p = 0 \<longrightarrow> score p = 0)
    \<and> (reviewCount a = reviewCount b \<and> 0 \<le> reviewCount a \<and> rating a \<le> rating b
         \<longrightarrow> score a \<le> score b)
    \<and> (rating a = rating b \<and> 0 \<le> rating a \<and> 0 \<le> reviewCount a
          \<and> reviewCount a \<le> reviewCount b
         \<longrightarrow> score a \<le> score b)"
proof -
  have "sorted_wrt (\<lambda>x y. - score x \<le> - score y) (sort_key (\<lambda>p. - score p) ps)"
    by (rule sorted_wrt_sort_key)
  then have "sorted_wrt (\<lambda>x y. score y \<le> score x) (sortProviders ps ''relevance'')"
    by (simp add: sort_relevance_score)
  then show ?thesis
    using score_zero_reviews score_mono_rating score_mono_reviews
    by (simp add: mset_sortProviders)
qed

lemma seed_scores:
  "score (InsertProvider.extend michaelChen (Provider.fields 2))
     < score (InsertProvider.extend sarahJohnson (Provider.fields 1))"
  "score (InsertProvider.extend sarahJohnson (Provider.fields 1))
     < score (InsertProvider.extend alexRodriguez (Provider.fields 3))"
proof -
  have a: "(0::real) < ln 98" and b: "ln 98 < ln (129::real)" and c: "ln 129 < ln (214::real)"
    by simp_all
  have "4 * ln 98 < 4.5 * ln (129::real)"
    using a b by (intro mult_strict_mono) simp_all
  then show "score (InsertProvider.extend michaelChen (Provider.fields 2))
     < score (InsertProvider.extend sarahJohnson (Provider.fields 1))"
    by (simp add: score_def extend_sel seed_fields)
  have "4.5 * ln 129 < 5 * ln (214::real)"
    using a b c by (intro mult_strict_mono) simp_all
  then show "score (InsertProvider.extend sarahJohnson (Provider.fields 1))
     < score (InsertProvider.extend alexRodriguez (Provider.fields 3))"
    by (simp add: score_def extend_sel seed_fields)
qed

theorem sort_relevance_order_witness:
  "map provider_id
     (sortProviders [InsertProvider.extend michaelChen (Provider.fields 2),
                     InsertProvider.extend sarahJohnson (Provider.fields 1),
                     InsertProvider.extend alexRodriguez (Provider.fields 3)] ''relevance'')
     = [3, 1, 2]
   \<and> sorted_wrt (\<lambda>x y. score y \<le> score x)
       (sortProviders [InsertProvider.extend michaelChen (Provider.fields 2),
                     InsertProvider.extend sarahJohnson (Provider.fields 1),
                     InsertProvider.extend alexRodriguez (Provider.fields 3)] ''relevance'')
   \<and> score (InsertProvider.extend unreviewed (Provider.fields 4)) = 0
   \<and> score (InsertProvider.extend (michaelChen\<lparr>reviewCount := 128\<rparr>) (Provider.fields 5))
       \<le> score (InsertProvider.extend sarahJohnson (Provider.fields 1))
   \<and> score (InsertProvider.extend michaelChen (Provider.fields 2))
       \<le> score (InsertProvider.extend (michaelChen\<lparr>reviewCount := 128\<rparr>) (Provider.fields 5))"
proof -
  let ?m = "InsertProvider.extend michaelChen (Provider.fields 2)"
  let ?s = "InsertProvider.extend sarahJohnson (Provider.fields 1)"
  let ?a = "InsertProvider.extend alexRodriguez (Provider.fields 3)"
  let ?u = "InsertProvider.extend unreviewed (Provider.fields 4)"
  let ?m' = "InsertProvider.extend (michaelChen\<lparr>reviewCount := 128\<rparr>) (Provider.fields 5)"
  have counts: "\<forall>p \<in> set [?m, ?s, ?a]. 0 \<le> reviewCount p"
    by (simp add: extend_sel seed_fields)
  have ev: "sortProviders [?m, ?s, ?a] ''relevance'' = [?a, ?s, ?m]"
    using seed_scores
    by (simp add: sortProviders_def array_sort_def cmp_relevance_def)
  have ids: "map provider_id (sortProviders [?m, ?s, ?a] ''relevance'') = [3, 1, 2]"
    by (simp add: ev extend_sel)
  note t1 = sort_relevance_order[OF counts, of ?u ?m' ?s]
  note t2 = sort_relevance_order[OF counts, of ?u ?m ?m']
  from t1 have srt: "sorted_wrt (\<lambda>x y. score y \<le> score x) (sortProviders [?m, ?s, ?a] ''relevance'')"
    by (rule conjunct1)
  have u: "reviewCount ?u = 0"
    by (simp add: extend_sel unreviewed_def)
  have r: "reviewCount ?m' = reviewCount ?s \<and> 0 \<le> reviewCount ?m' \<and> rating ?m' \<le> rating ?s"
    by (simp add: extend_sel seed_fields)
  have c: "rating ?m = rating ?m' \<and> 0 \<le> rating ?m \<and> 0 \<le> reviewCount ?m
      \<and> reviewCount ?m \<le> reviewCount ?m'"
    by (simp add: extend_sel seed_fields)
  from t1 t2 u r c have "score ?u = 0 \<and> score ?m' \<le> score ?s \<and> score ?m \<le> score ?m'"
    by blast
  with ids srt show ?thesis by blast
qed

subsection \<open>No dereference of a missing value\<close>

lemma filter_checked_pure:
  "(\<And>x. x \<in> set xs \<Longrightarrow> P' x = Returned (P x)) \<Longrightarrow>
   filter_checked P' xs = Returned (filter P xs)"
  by (induction xs) (simp_all add: and_then_def)

lemma matchesQuery_checked_pure:
  "matchesQuery_checked query p = Returned (matchesQuery query p)"
  by (cases "officeAddress p"; cases "insurances p")
     (simp_all add: matchesQuery_checked_def matchesQuery_def or_else_def and_also_def
        present_def on_def)

lemma matchesInsurance_checked_pure:
  "matchesInsurance_checked (Some insurance) p = Returned (matchesInsurance insurance p)"
  by (cases "insurances p")
     (simp_all add: matchesInsurance_checked_def matchesInsurance_def and_also_def
        present_def on_def)

lemma guarded_checked:
  "and_also (truthy t) (text_includes t tok)
     = Returned (guarded t (\<lambda>x. includes_str (toLowerCase x) tok))"
  by (cases t) (simp_all add: and_also_def truthy_def text_includes_def on_def guarded_def)

lemma availableToday_checked_pure: "availableToday_checked p = Returned (availableToday p)"
  by (simp add: availableToday_checked_def availableToday_def guarded_checked)

lemma availableThisWeek_checked_pure:
  "availableThisWeek_checked p = Returned (availableThisWeek p)"
  by (cases "nextAvailable p")
     (simp_all add: availableThisWeek_checked_def availableThisWeek_def and_also_def or_else_def
        truthy_def text_includes_def on_def guarded_def)

lemma availableWeekends_checked_pure:
  "availableWeekends_checked p = Returned (availableWeekends p)"
  by (cases "nextAvailable p")
     (simp_all add: availableWeekends_checked_def availableWeekends_def and_also_def or_else_def
        truthy_def text_includes_def on_def guarded_def)

lemma speaksSpanish_checked_pure: "speaksSpanish_checked p = Returned (speaksSpanish p)"
  by (cases "languages p")
     (simp_all add: speaksSpanish_checked_def speaksSpanish_def and_also_def present_def on_def)

lemma stage_query_checked_pure: "stage_query_checked flt ps = Returned (stage_query flt ps)"
  by (cases "f_searchQuery flt")
     (simp_all add: stage_query_checked_def stage_query_def truthy_def on_def
        filter_checked_pure[of _ _ "matchesQuery _"] matchesQuery_checked_pure)

lemma stage_specialty_checked_pure:
  "stage_specialty_checked flt ps = Returned (stage_specialty flt ps)"
  by (cases "f_specialty flt")
     (simp_all add: stage_specialty_checked_def stage_specialty_def truthy_def
        filter_checked_pure[of _ _ "matchesSpecialty _"] matchesSpecialty_def)

lemma stage_insurance_checked_pure:
  "stage_insurance_checked flt ps = Returned (stage_insurance flt ps)"
  by (cases "f_insurance flt")
     (simp_all add: stage_insurance_checked_def stage_insurance_def truthy_def
        filter_checked_pure[of _ _ "matchesInsurance _"] matchesInsurance_checked_pure)

lemma stage_availability_checked_pure:
  "stage_availability_checked flt ps = Returned (stage_availability flt ps)"
  by (cases "f_availability flt")
     (simp_all add: stage_availability_checked_def stage_availability_def present_def on_def
        and_then_def Let_def
        filter_checked_pure[of _ _ availableToday] availableToday_checked_pure
        filter_checked_pure[of _ _ availableThisWeek] availableThisWeek_checked_pure
        filter_checked_pure[of _ _ availableWeekends] availableWeekends_checked_pure)

lemma stage_additional_checked_pure:
  "stage_additional_checked flt ps = Returned (stage_additional flt ps)"
  by (cases "f_additional flt")
     (simp_all add: stage_additional_checked_def stage_additional_def present_def on_def
        and_then_def Let_def
        filter_checked_pure[of _ _ "\<lambda>p. acceptingNewPatients p = Some True"]
        filter_checked_pure[of _ _ "\<lambda>p. hasVirtualVisits p = Some True"]
        filter_checked_pure[of _ _ speaksSpanish] speaksSpanish_checked_pure)

lemma searchProviders_checked_pure:
  "searchProviders_checked s flt = Returned (searchProviders s flt)"
  by (simp add: searchProviders_checked_def searchProviders_def filteredProviders_def
      stage_query_checked_pure stage_specialty_checked_pure stage_insurance_checked_pure
      stage_availability_checked_pure stage_additional_checked_pure and_then_def Let_def)

lemma map_get_absent: "i \<notin> fst ` set m \<Longrightarrow> map_get m i = None"
  by (simp add: map_get_def map_of_eq_None_iff)

text \<open>
  C8. \<open>getProvider\<close> of an id that is not in the store returns \<open>undefined\<close>
  (here \<open>None\<close>) and does not throw. None of \<open>getProviders\<close>, \<open>getProvider\<close> and
  \<open>searchProviders\<close> throws, whatever the store, the options and the filter: every
  member access on a value that may be missing is behind a guard that has found it
  present, so the evaluation that keeps track of such accesses returns, and it returns
  what the methods above compute.
\<close>

theorem reads_never_throw:
  "(i \<notin> fst ` set (providers s) \<longrightarrow> getProvider_checked s i = Returned None)
   \<and> getProvider_checked s j = Returned (getProvider s j)
   \<and> getProviders_checked s options = Returned (getProviders s options)
   \<and> searchProviders_checked s flt = Returned (searchProviders s flt)
   \<and> getProvider_checked s j \<noteq> Thrown
   \<and> getProviders_checked s options \<noteq> Thrown
   \<and> searchProviders_checked s flt \<noteq> Thrown"
  by (simp add: getProvider_checked_def getProvider_def getProviders_checked_def
      searchProviders_checked_pure map_get_absent)

lemma storeSparse_values:
  "map_values (providers storeSparse) =
     [InsertProvider.extend sparseProvider (Provider.fields 1),
      InsertProvider.extend sarahJohnson (Provider.fields 2)]"
  by (simp add: storeSparse_def newMemStorage_providers map_values_def)

lemma filterEverything_satisfies:
  "\<not> satisfies filterEverything (InsertProvider.extend sparseProvider (Provider.fields 1))"
  "satisfies filterEverything (InsertProvider.extend sarahJohnson (Provider.fields 2))"
  by code_simp+

lemma filterEverything_fields:
  "f_page filterEverything = 1" "f_limit filterEverything = 10"
  "f_sort filterEverything = ''availability''"
  by (simp_all add: filterEverything_def)

theorem reads_never_throw_witness:
  "getProvider_checked storeSparse 7 = Returned None
   \<and> searchProviders_checked storeSparse filterEverything
       = Returned (searchProviders storeSparse filterEverything)
   \<and> map provider_id (r_providers (searchProviders storeSparse filterEverything)) = [2]"
proof -
  have absent: "7 \<notin> fst ` set (providers storeSparse)"
    by (simp add: storeSparse_def newMemStorage_providers)
  note t = reads_never_throw[of 7 storeSparse 7 None filterEverything]
  have flt: "filteredProviders storeSparse filterEverything
      = [InsertProvider.extend sarahJohnson (Provider.fields 2)]"
    by (simp add: filteredProviders_filter storeSparse_values filterEverything_satisfies)
  have page: "r_providers (searchProviders storeSparse filterEverything)
      = [InsertProvider.extend sarahJohnson (Provider.fields 2)]"
    by (simp add: searchProviders_def Let_def filterEverything_fields flt sortProviders_def
        array_sort_def slice_forward toInteger_simps)
  from t absent show ?thesis
    by (simp add: page extend_sel)
qed

subsection \<open>Pages\<close>



















subsection \<open>The filtered set\<close>

lemma toLowerCase_spanish: "toLowerCase ''spanish'' = ''spanish''"
  by code_simp

lemma formatAddress_line: "formatAddress a = address_line a"
  by (simp add: formatAddress_def address_line_def)

lemma wants_query_meets: "wants_query flt p = meets_query flt p"
proof (cases "f_searchQuery flt")
  case None
  then show ?thesis by (simp add: wants_query_def meets_query_def)
next
  case (Some q)
  show ?thesis
  proof (cases "q = []")
    case True
    then have "contains_ignoring_case q (name p)"
      by (simp add: contains_ignoring_case_def toLowerCase_def)
    then show ?thesis
      using Some True by (simp add: wants_query_def meets_query_def searched_texts_def)
  next
    case False
    then show ?thesis
      using Some
      by (cases "officeAddress p"; cases "insurances p")
        (simp_all add: wants_query_def meets_query_def matchesQuery_def searched_texts_def
          contains_ignoring_case_def[abs_def] includes_str_sublist formatAddress_line listed_def
          list_ex_iff)
  qed
qed

lemma wants_specialty_meets: "wants_specialty flt p = meets_specialty flt p"
  by (simp add: wants_specialty_def meets_specialty_def matchesSpecialty_def
      same_ignoring_case_def split: option.splits)

lemma wants_insurance_meets: "wants_insurance flt p = meets_insurance flt p"
  by (cases "insurances p")
    (simp_all add: wants_insurance_def meets_insurance_def matchesInsurance_def
      same_ignoring_case_def listed_def split: option.splits)

lemma wants_availability_meets: "wants_availability flt p = meets_availability flt p"
  by (cases "f_availability flt")
    (simp_all add: meets_availability_def wants_availability_ok, simp add: wants_availability_def)

lemma wants_additional_meets: "wants_additional flt p = meets_additional flt p"
  by (cases "languages p")
    (simp_all add: wants_additional_def meets_additional_def speaksSpanish_def
      same_ignoring_case_def toLowerCase_spanish listed_def split: option.splits)

lemma satisfies_meets: "satisfies flt p = meets flt p"
  by (simp add: satisfies_def meets_def wants_query_meets wants_specialty_meets
      wants_insurance_meets wants_availability_meets wants_additional_meets)

lemma filteredProviders_meets:
  "filteredProviders s flt = filter (meets flt) (map_values (providers s))"
  by (simp add: filteredProviders_filter satisfies_meets[abs_def])

lemma meets_empty_query:
  assumes "f_searchQuery flt = None \<or> f_searchQuery flt = Some ''''"
  shows "meets_query flt p"
  using assms
  by (auto simp: meets_query_def searched_texts_def contains_ignoring_case_def toLowerCase_def)

lemma stage_empty_query:
  assumes "f_searchQuery flt = None \<or> f_searchQuery flt = Some ''''"
  shows "stage_query flt ps = ps"
  using assms by (auto simp: stage_query_def)

lemma store4_values:
  "map_values (providers store4) =
     [InsertProvider.extend sarahJohnson (Provider.fields 1),
      InsertProvider.extend michaelChen (Provider.fields 2),
      InsertProvider.extend alexRodriguez (Provider.fields 3),
      InsertProvider.extend unlocated (Provider.fields 4)]"
  by (simp add: store4_def newMemStorage_providers map_values_def)

lemma filterNewYork_fields:
  "f_page filterNewYork = 1" "f_limit filterNewYork = 1" "f_sort filterNewYork = ''distance''"
  "f_searchQuery filterNoText = Some ''''"
  by (simp_all add: filterNewYork_def filterNoText_def)

lemma filterNewYork_meets:
  "meets filterNewYork (InsertProvider.extend sarahJohnson (Provider.fields 1))"
  "\<not> meets filterNewYork (InsertProvider.extend michaelChen (Provider.fields 2))"
  "meets filterNewYork (InsertProvider.extend alexRodriguez (Provider.fields 3))"
  "\<not> meets filterNewYork (InsertProvider.extend unlocated (Provider.fields 4))"
  by code_simp+

lemma filterNewYork_parts:
  "meets_query filterNewYork (InsertProvider.extend michaelChen (Provider.fields 2))"
  "\<not> meets_additional filterNewYork (InsertProvider.extend michaelChen (Provider.fields 2))"
  "\<not> meets_query filterNewYork (InsertProvider.extend unlocated (Provider.fields 4))"
  "meets_additional filterNewYork (InsertProvider.extend unlocated (Provider.fields 4))"
  by code_simp+

lemma filterNoText_meets:
  "meets filterNoText (InsertProvider.extend sarahJohnson (Provider.fields 1))"
  "\<not> meets filterNoText (InsertProvider.extend michaelChen (Provider.fields 2))"
  "meets filterNoText (InsertProvider.extend alexRodriguez (Provider.fields 3))"
  "meets filterNoText (InsertProvider.extend unlocated (Provider.fields 4))"
  by code_simp+

text \<open>
  C1. The list \<open>searchProviders\<close> sorts and pages, \<open>filteredProviders\<close>, is the
  collection restricted to the providers that meet every predicate the filter requests
  (\<open>meets\<close>: the free-text query, the specialty, the insurance, the availability
  toggles and the additional flags, as the description of the search states them), in
  the collection's order; a provider is in it exactly if it is in the store and meets
  them all; \<open>total\<close> is the length of that list, whatever the page; and with the text
  query missing or empty every provider meets the text predicate, the text stage
  returns its input, and the list is the collection restricted by the other four
  predicates alone.
\<close>

theorem searchProviders_filtered_set:
  "filteredProviders s flt = filter (meets flt) (map_values (providers s))
   \<and> (p \<in> set (filteredProviders s flt)
        \<longleftrightarrow> p \<in> set (map_values (providers s)) \<and> meets flt p)
   \<and> r_total (searchProviders s flt) = int (length (filteredProviders s flt))
   \<and> (f_searchQuery flt = None \<or> f_searchQuery flt = Some '''' \<longrightarrow>
        meets_query flt q \<and> stage_query flt ps = ps
        \<and> filteredProviders s flt
            = filter (\<lambda>x. meets_specialty flt x \<and> meets_insurance flt x
                          \<and> meets_availability flt x \<and> meets_additional flt x)
                (map_values (providers s)))"
proof -
  have "filteredProviders s flt
      = filter (\<lambda>x. meets_specialty flt x \<and> meets_insurance flt x
                    \<and> meets_availability flt x \<and> meets_additional flt x)
          (map_values (providers s))"
    if "f_searchQuery flt = None \<or> f_searchQuery flt = Some ''''"
    unfolding filteredProviders_meets
    by (rule filter_cong) (simp_all add: meets_def meets_empty_query[OF that])
  then show ?thesis
    by (simp add: filteredProviders_meets searchProviders_total meets_empty_query
        stage_empty_query)
qed

theorem searchProviders_filtered_set_witness:
  "map provider_id (filteredProviders store4 filterNewYork) = [1, 3]
   \<and> InsertProvider.extend michaelChen (Provider.fields 2)
        \<notin> set (filteredProviders store4 filterNewYork)
   \<and> meets_query filterNewYork (InsertProvider.extend michaelChen (Provider.fields 2))
   \<and> InsertProvider.extend unlocated (Provider.fields 4)
        \<notin> set (filteredProviders store4 filterNewYork)
   \<and> meets_additional filterNewYork (InsertProvider.extend unlocated (Provider.fields 4))
   \<and> r_total (searchProviders store4 filterNewYork) = 2
   \<and> map provider_id (r_providers (searchProviders store4 filterNewYork)) = [1]
   \<and> map provider_id (filteredProviders store4 filterNoText) = [1, 3, 4]
   \<and> r_total (searchProviders store4 filterNoText) = 3
   \<and> stage_query filterNoText (map_values (providers store4)) = map_values (providers store4)"
proof -
  note t = searchProviders_filtered_set[of store4 filterNewYork
      "InsertProvider.extend michaelChen (Provider.fields 2)"]
  note u = searchProviders_filtered_set[of store4 filterNewYork
      "InsertProvider.extend unlocated (Provider.fields 4)"]
  note e = searchProviders_filtered_set[of store4 filterNoText _ _
      "map_values (providers store4)"]
  from t have "filteredProviders store4 filterNewYork
      = filter (meets filterNewYork) (map_values (providers store4))"
    by (rule conjunct1)
  then have flt: "filteredProviders store4 filterNewYork =
     [InsertProvider.extend sarahJohnson (Provider.fields 1),
      InsertProvider.extend alexRodriguez (Provider.fields 3)]"
    by (simp add: store4_values filterNewYork_meets)
  from t have "InsertProvider.extend michaelChen (Provider.fields 2)
        \<in> set (filteredProviders store4 filterNewYork)
      \<longleftrightarrow> InsertProvider.extend michaelChen (Provider.fields 2)
            \<in> set (map_values (providers store4))
          \<and> meets filterNewYork (InsertProvider.extend michaelChen (Provider.fields 2))"
    by blast
  then have out2: "InsertProvider.extend michaelChen (Provider.fields 2)
        \<notin> set (filteredProviders store4 filterNewYork)"
    by (simp add: filterNewYork_meets)
  from u have "InsertProvider.extend unlocated (Provider.fields 4)
        \<in> set (filteredProviders store4 filterNewYork)
      \<longleftrightarrow> InsertProvider.extend unlocated (Provider.fields 4)
            \<in> set (map_values (providers store4))
          \<and> meets filterNewYork (InsertProvider.extend unlocated (Provider.fields 4))"
    by blast
  then have out4: "InsertProvider.extend unlocated (Provider.fields 4)
        \<notin> set (filteredProviders store4 filterNewYork)"
    by (simp add: filterNewYork_meets)
  from t have "r_total (searchProviders store4 filterNewYork)
      = int (length (filteredProviders store4 filterNewYork))"
    by blast
  then have tot: "r_total (searchProviders store4 filterNewYork) = 2"
    by (simp add: flt)
  have sorted: "sortProviders (filteredProviders store4 filterNewYork) ''distance''
      = filteredProviders store4 filterNewYork"
    by (simp add: flt sortProviders_def array_sort_def cmp_distance_def or_zero_def
        extend_sel seed_fields)
  have page: "r_providers (searchProviders store4 filterNewYork)
      = [InsertProvider.extend sarahJohnson (Provider.fields 1)]"
    by (simp add: searchProviders_def Let_def filterNewYork_fields sorted[unfolded flt]
        slice_forward toInteger_simps flt)
  have q: "f_searchQuery filterNoText = None \<or> f_searchQuery filterNoText = Some []"
    by (simp add: filterNewYork_fields)
  from e have "filteredProviders store4 filterNoText
      = filter (meets filterNoText) (map_values (providers store4))"
    by (rule conjunct1)
  then have flt': "filteredProviders store4 filterNoText =
     [InsertProvider.extend sarahJohnson (Provider.fields 1),
      InsertProvider.extend alexRodriguez (Provider.fields 3),
      InsertProvider.extend unlocated (Provider.fields 4)]"
    by (simp add: store4_values filterNoText_meets)
  from e have "r_total (searchProviders store4 filterNoText)
      = int (length (filteredProviders store4 filterNoText))"
    by blast
  then have tot': "r_total (searchProviders store4 filterNoText) = 3"
    by (simp add: flt')
  from e q have sq: "stage_query filterNoText (map_values (providers store4))
      = map_values (providers store4)"
    by blast
  show ?thesis
    using out2 out4 tot tot' sq
    by (simp add: flt flt' page extend_sel filterNewYork_parts)
qed

end
